theory Spec2Isabelle
  imports Complex_Main "HOL-Library.AList"
begin

section \<open>Python values and strings\<close>

text \<open>
  The exceptions that the modelled code can raise. Every one of them is a subclass of
  Python's \<open>Exception\<close>.
\<close>

datatype error = OSError | KeyError | AttributeError | ZeroDivisionError

text \<open>Decimal rendering of integers, as an f-string renders a Python \<open>int\<close>.\<close>

definition digit_char :: "nat \<Rightarrow> char" where
  "digit_char d = (''0123456789'' @ replicate d CHR ''?'') ! d"

fun str_nat :: "nat \<Rightarrow> string" where
  "str_nat n = (if n < 10 then [digit_char n] else str_nat (n div 10) @ [digit_char (n mod 10)])"

declare str_nat.simps [simp del]

definition str_int :: "int \<Rightarrow> string" where
  "str_int i = (if i < 0 then CHR ''-'' # str_nat (nat (- i)) else str_nat (nat i))"

text \<open>\<open>str.lower()\<close> on the ASCII letters, \<open>str.replace('D', '')\<close> and the substring
  test \<open>sub in s\<close>.\<close>

definition lower_char :: "char \<Rightarrow> char" where
  "lower_char c =
     (case map_of (zip ''ABCDEFGHIJKLMNOPQRSTUVWXYZ'' ''abcdefghijklmnopqrstuvwxyz'') c of
        Some d \<Rightarrow> d
      | None \<Rightarrow> c)"

definition lower :: "string \<Rightarrow> string" where
  "lower s = map lower_char s"

definition replace_D :: "string \<Rightarrow> string" where
  "replace_D s = filter (\<lambda>c. c \<noteq> CHR ''D'') s"

fun contains :: "string \<Rightarrow> string \<Rightarrow> bool" where
  "contains sub [] = (sub = [])"
| "contains sub (c # cs) = (take (length sub) (c # cs) = sub \<or> contains sub cs)"

text \<open>The row label \<open>f"B-{idx}"\<close> and the placeholder text of a boundary-file row.\<close>

definition b_label :: "nat \<Rightarrow> string" where
  "b_label idx = ''B-'' @ str_nat idx"

definition b_placeholder :: "nat \<Rightarrow> string" where
  "b_placeholder idx = ''Select file for Boundary '' @ str_nat idx @ ''...''"

section \<open>Geometry tab\<close>

text \<open>
  One entry of \<open>GeometryTab.boundary_rows\<close>: the dictionary with the keys \<open>widget\<close>,
  \<open>label\<close>, \<open>edit\<close> and \<open>btn_del\<close>. A widget object is represented by its identity, a
  natural number; of the label the text is kept, of the line edit its text and placeholder,
  of the delete button its visibility.
\<close>

record boundary_row =
  row_widget :: nat
  row_label :: string
  row_edit :: string
  row_placeholder :: string
  row_btn_del_visible :: bool

record geometry_tab =
  coord_edit :: string
  conn_edit :: string
  conn_type :: string
  boundary_rows :: "boundary_row list"
  scroll_layout :: "nat list"
  geo_fresh :: nat

definition CONNECTIVITY_TYPES :: "string list" where
  "CONNECTIVITY_TYPES = [''4-Node Quadrilateral'', ''3-Node Triangle'', ''6-Node Triangle'']"

text \<open>\<open>refresh_ui\<close>: renumber the labels and placeholders, show the delete buttons only
  when more than one row exists.\<close>

definition refresh_row :: "bool \<Rightarrow> nat \<times> boundary_row \<Rightarrow> boundary_row" where
  "refresh_row show_del p =
     (case p of (i, row) \<Rightarrow>
        row\<lparr>row_label := b_label (i + 1),
            row_placeholder := b_placeholder (i + 1),
            row_btn_del_visible := show_del\<rparr>)"

definition refresh_ui :: "geometry_tab \<Rightarrow> geometry_tab" where
  "refresh_ui g =
     (let show_del = length (boundary_rows g) > 1
      in g\<lparr>boundary_rows := map (refresh_row show_del) (enumerate 0 (boundary_rows g))\<rparr>)"

definition add_boundary_row :: "geometry_tab \<Rightarrow> geometry_tab" where
  "add_boundary_row g =
     (let row_idx = length (boundary_rows g) + 1;
          w = geo_fresh g;
          row = \<lparr>row_widget = w, row_label = b_label row_idx, row_edit = [],
                 row_placeholder = b_placeholder row_idx, row_btn_del_visible = True\<rparr>
      in refresh_ui (g\<lparr>scroll_layout := scroll_layout g @ [w],
                       boundary_rows := boundary_rows g @ [row],
                       geo_fresh := w + 1\<rparr>))"

text \<open>The loop of \<open>remove_boundary_row\<close> that pops the first row whose widget is the given
  one and then breaks.\<close>

fun pop_row :: "nat \<Rightarrow> boundary_row list \<Rightarrow> boundary_row list" where
  "pop_row w [] = []"
| "pop_row w (row # rows) = (if row_widget row = w then rows else row # pop_row w rows)"

definition remove_boundary_row :: "nat \<Rightarrow> geometry_tab \<Rightarrow> geometry_tab" where
  "remove_boundary_row w g =
     (if length (boundary_rows g) \<le> 1 then g
      else refresh_ui (g\<lparr>boundary_rows := pop_row w (boundary_rows g),
                            scroll_layout := remove1 w (scroll_layout g)\<rparr>))"

text \<open>\<open>GeometryTab.__init__\<close>: the empty row list, then \<open>init_ui\<close>, whose
  \<open>create_boundary_files\<close> adds the initial row.\<close>

definition geometry_tab_init :: geometry_tab where
  "geometry_tab_init =
     add_boundary_row
       \<lparr>coord_edit = [], conn_edit = [], conn_type = hd CONNECTIVITY_TYPES,
        boundary_rows = [], scroll_layout = [], geo_fresh = 0\<rparr>"

datatype geometry_op = AddBoundaryRow | RemoveBoundaryRow nat

fun geometry_step :: "geometry_op \<Rightarrow> geometry_tab \<Rightarrow> geometry_tab" where
  "geometry_step AddBoundaryRow g = add_boundary_row g"
| "geometry_step (RemoveBoundaryRow w) g = remove_boundary_row w g"

definition geometry_run :: "geometry_op list \<Rightarrow> geometry_tab \<Rightarrow> geometry_tab" where
  "geometry_run ops g = fold geometry_step ops g"

section \<open>Solver and physical-properties tabs\<close>

text \<open>
  \<open>SolverTab.solver_widgets\<close> and \<open>PhysicalTab.phys_inputs\<close> are dictionaries whose keys
  are the string literals of \<open>init_ui\<close>, never added to or removed from afterwards; each is
  a record with one field per key. A combo box is represented by its current text, a
  \<open>QSpinBox\<close> by its integer value, a \<open>QDoubleSpinBox\<close> by the decimal it holds (a
  rational number), a check box by its state.
\<close>

record solver_tab =
  sim_type :: string
  fluid_eqn :: string
  mesh_eqn :: string
  acoustic_eqn :: string
  dims :: string
  nl_min :: int
  nl_max :: int
  nl_tol :: rat
  lin_solver :: string
  lin_tol :: rat
  lin_max :: int
  lin_rst :: int
  time_step :: rat
  max_steps :: int
  rho_inf :: rat
  restart_flag :: bool
  restart_id :: int
  out_type :: string
  out_start :: int
  out_freq :: int
  int_freq :: int
  rst_freq :: int
  acoustic_nrbc_x :: rat
  acoustic_nrbc_y :: rat
  acoustic_nrbc_z :: rat
  acoustic_nrbc_inner :: rat
  acoustic_nrbc_outer :: rat

definition solver_tab_init :: solver_tab where
  "solver_tab_init =
     \<lparr>sim_type = ''Transient'', fluid_eqn = ''Incompressible Navier-Stokes'',
      mesh_eqn = ''None'', acoustic_eqn = ''None'', dims = ''2D'',
      nl_min = 1, nl_max = 10, nl_tol = 5 / 10000,
      lin_solver = ''GMRES'', lin_tol = 5 / 10000, lin_max = 30, lin_rst = 30,
      time_step = 1 / 100, max_steps = 10, rho_inf = 0,
      restart_flag = False, restart_id = 20,
      out_type = ''vtk'', out_start = 5, out_freq = 1, int_freq = 1, rst_freq = 100,
      acoustic_nrbc_x = 0, acoustic_nrbc_y = 0, acoustic_nrbc_z = 0,
      acoustic_nrbc_inner = 10, acoustic_nrbc_outer = 15\<rparr>"

record physical_tab =
  phys_rho :: rat
  phys_U :: rat
  phys_mu :: rat
  phys_L :: rat
  phys_gamma :: rat
  phys_a :: rat
  lbl_reynolds :: string
  lbl_mach :: string

definition physical_tab_init :: physical_tab where
  "physical_tab_init =
     \<lparr>phys_rho = 1000, phys_U = 1, phys_mu = 9091 / 10000, phys_L = 1,
      phys_gamma = 14 / 10, phys_a = 340, lbl_reynolds = ''0'', lbl_mach = ''0''\<rparr>"

section \<open>Boundary-conditions tab\<close>

text \<open>
  One row of a boundary-condition sub-tab. The horizontal layout of the row holds, in this
  order, the label (item 0), the name edit (item 1), the text "Type", the type combo
  (item 3), the text "Value", the value spinner (item 5) and, in the displacement
  sub-tabs only, the text "Tag" and the tag spinner (item 7), then the delete button.
  \<open>bc_tag_spin\<close> is \<open>None\<close> for a row without a tag spinner.
\<close>

record bc_row =
  bc_widget :: nat
  bc_label :: string
  bc_name_edit :: string
  bc_type_items :: "string list"
  bc_type_combo :: string
  bc_val_spin :: rat
  bc_tag_spin :: "int option"

text \<open>
  \<open>init_cond_widgets\<close> is a dictionary with eight literal keys; \<open>bc_layouts\<close> is a
  dictionary from the sub-tab name to its layout, iterated in insertion order by the save
  routine, hence an association list. \<open>bc_tabs_current\<close> is \<open>bc_tabs.currentIndex()\<close>.
\<close>

record boundary_tab =
  ic_pres :: rat
  ic_xvel :: rat
  ic_yvel :: rat
  ic_zvel :: rat
  ic_xdisp :: rat
  ic_ydisp :: rat
  ic_zdisp :: rat
  ic_psi :: rat
  bc_tabs_current :: nat
  bc_layouts :: "(string \<times> bc_row list) list"
  bt_fresh :: nat

definition bc_tab_names :: "string list" where
  "bc_tab_names =
     [''X-velocity'', ''Y-velocity'', ''Z-velocity'', ''X-disp'', ''Y-disp'', ''Z-disp'',
      ''Acoustic-potential'']"

definition bc_type_choices :: "string \<Rightarrow> string list" where
  "bc_type_choices tab_name =
     (if contains ''velocity'' tab_name then [''None'', ''Dirichlet'', ''matchMeshVel'']
      else if contains ''disp'' tab_name then [''None'', ''Dirichlet'', ''prescribed'']
      else if contains ''Acoustic'' tab_name then [''None'', ''Dirichlet'']
      else [''None'', ''Dirichlet'', ''Neumann'', ''Robin''])"

text \<open>\<open>_refresh_bc_labels\<close>: every row of the layout gets the label of its position.\<close>

definition refresh_bc_label :: "nat \<times> bc_row \<Rightarrow> bc_row" where
  "refresh_bc_label p = (case p of (i, row) \<Rightarrow> row\<lparr>bc_label := b_label (i + 1)\<rparr>)"

definition refresh_bc_labels :: "bc_row list \<Rightarrow> bc_row list" where
  "refresh_bc_labels layout = map refresh_bc_label (enumerate 0 layout)"

text \<open>\<open>add_bc_row(layout, tab_name, label_text)\<close>; the first argument is the identity of
  the new row widget.\<close>

definition add_bc_row :: "nat \<Rightarrow> bc_row list \<Rightarrow> string \<Rightarrow> string option \<Rightarrow> bc_row list" where
  "add_bc_row w layout tab_name label_text =
     (let row_count = length layout + 1;
          lbl = (case label_text of None \<Rightarrow> b_label row_count | Some t \<Rightarrow> t);
          row = \<lparr>bc_widget = w, bc_label = lbl, bc_name_edit = [],
                 bc_type_items = bc_type_choices tab_name,
                 bc_type_combo = hd (bc_type_choices tab_name),
                 bc_val_spin = 0,
                 bc_tag_spin = (if contains ''disp'' tab_name then Some 0 else None)\<rparr>
      in refresh_bc_labels (layout @ [row]))"

text \<open>\<open>layout.removeWidget(widget)\<close> takes the item that holds the widget out of the
  layout; \<open>remove_generic_row\<close> then renumbers the labels.\<close>

fun remove_widget :: "nat \<Rightarrow> bc_row list \<Rightarrow> bc_row list" where
  "remove_widget w [] = []"
| "remove_widget w (row # rows) = (if bc_widget row = w then rows else row # remove_widget w rows)"

definition remove_generic_row :: "bc_row list \<Rightarrow> nat \<Rightarrow> bc_row list" where
  "remove_generic_row layout w = refresh_bc_labels (remove_widget w layout)"

section \<open>File names\<close>

text \<open>
  \<open>os.path.basename\<close> and the root part of \<open>os.path.splitext\<close>, as \<open>posixpath\<close> defines
  them: the base name is what follows the last slash; the extension starts at the last
  dot, unless that dot is not after the last slash or only dots stand between the slash
  and it. \<open>rfind\<close> is \<open>str.rfind\<close> for one character, \<open>-1\<close> when it does not occur.
\<close>

fun rfind :: "char \<Rightarrow> string \<Rightarrow> int" where
  "rfind c [] = - 1"
| "rfind c (x # xs) = (let r = rfind c xs in if r \<ge> 0 then r + 1 else if x = c then 0 else - 1)"

definition basename :: "string \<Rightarrow> string" where
  "basename p = drop (nat (rfind CHR ''/'' p + 1)) p"

definition splitext_root :: "string \<Rightarrow> string" where
  "splitext_root p =
     (let sepIndex = rfind CHR ''/'' p;
          dotIndex = rfind CHR ''.'' p
      in if dotIndex > sepIndex
            \<and> list_ex (\<lambda>c. c \<noteq> CHR ''.'') (drop (nat (sepIndex + 1)) (take (nat dotIndex) p))
         then take (nat dotIndex) p
         else p)"

section \<open>Refreshing the active boundary-condition sub-tab\<close>

text \<open>
  The body of the \<open>for i in range(count)\<close> loop of \<open>refresh_active_boundary_tab\<close>, run
  over the remaining indices; the state is the target layout and the next widget identity.
  \<open>target_layout.itemAt(i)\<close> is \<open>None\<close> outside the layout, where \<open>.widget()\<close> raises.
\<close>

fun refresh_rows ::
  "bool \<Rightarrow> boundary_row list \<Rightarrow> string \<Rightarrow> nat list \<Rightarrow> bc_row list \<times> nat
     \<Rightarrow> error + bc_row list \<times> nat" where
  "refresh_rows initial geom name [] st = Inr st"
| "refresh_rows initial geom name (i # rest) st =
     (let layout = add_bc_row (snd st) (fst st) name (Some (b_label (i + 1)));
          fresh = snd st + 1
      in if \<not> initial \<and> i < length geom then
           (let boundary_file = row_edit (geom ! i)
            in if boundary_file \<noteq> [] then
                 (let filename = splitext_root (basename boundary_file)
                  in if i < length layout
                     then refresh_rows initial geom name rest
                            (layout[i := (layout ! i)\<lparr>bc_name_edit := filename\<rparr>], fresh)
                     else Inl AttributeError)
               else refresh_rows initial geom name rest (layout, fresh))
         else refresh_rows initial geom name rest (layout, fresh))"

text \<open>\<open>QTabWidget.tabText\<close> gives the empty string for an index that is no tab; the
  sub-tabs were added in the order of \<open>bc_layouts\<close>.\<close>

definition tabText :: "boundary_tab \<Rightarrow> nat \<Rightarrow> string" where
  "tabText bt idx = (if idx < length (bc_layouts bt) then fst (bc_layouts bt ! idx) else [])"

definition refresh_active_boundary_tab ::
  "bool \<Rightarrow> boundary_row list \<Rightarrow> boundary_tab \<Rightarrow> error + boundary_tab" where
  "refresh_active_boundary_tab initial geometry_boundary_rows bt =
     (let count = (if initial then 1 else length geometry_boundary_rows);
          idx = bc_tabs_current bt;
          name = tabText bt idx
      in case map_of (bc_layouts bt) name of
           None \<Rightarrow> Inl KeyError
         | Some target_layout \<Rightarrow>
             (case refresh_rows initial geometry_boundary_rows name [0..<count] ([], bt_fresh bt) of
                Inl e \<Rightarrow> Inl e
              | Inr (layout, fresh) \<Rightarrow>
                  Inr (bt\<lparr>bc_layouts := AList.update name layout (bc_layouts bt),
                         bt_fresh := fresh\<rparr>)))"

text \<open>\<open>BoundaryTab.__init__\<close>: the eight initial-condition spinners, the seven empty
  sub-tabs with the first one current, then \<open>refresh_active_boundary_tab(initial=True)\<close>
  while \<open>geometry_boundary_rows\<close> is still the empty list.\<close>

definition boundary_tab_empty :: boundary_tab where
  "boundary_tab_empty =
     \<lparr>ic_pres = 0, ic_xvel = 1, ic_yvel = 0, ic_zvel = 0,
      ic_xdisp = 0, ic_ydisp = 0, ic_zdisp = 0, ic_psi = 0,
      bc_tabs_current = 0, bc_layouts = map (\<lambda>name. (name, [])) bc_tab_names, bt_fresh = 0\<rparr>"

definition boundary_tab_init :: "error + boundary_tab" where
  "boundary_tab_init = refresh_active_boundary_tab True [] boundary_tab_empty"

text \<open>A click on the "+ Add Boundary Condition" button of the sub-tab \<open>name\<close>, and on the
  delete button of the row \<open>w\<close> of that sub-tab. Each button is bound to the layout of its
  own sub-tab; no button exists for a name that is no sub-tab.\<close>

definition click_add_bc :: "string \<Rightarrow> boundary_tab \<Rightarrow> boundary_tab" where
  "click_add_bc name bt =
     (case map_of (bc_layouts bt) name of
        None \<Rightarrow> bt
      | Some layout \<Rightarrow>
          bt\<lparr>bc_layouts := AList.update name (add_bc_row (bt_fresh bt) layout name None) (bc_layouts bt),
             bt_fresh := bt_fresh bt + 1\<rparr>)"

definition click_remove_bc :: "string \<Rightarrow> nat \<Rightarrow> boundary_tab \<Rightarrow> boundary_tab" where
  "click_remove_bc name w bt =
     (case map_of (bc_layouts bt) name of
        None \<Rightarrow> bt
      | Some layout \<Rightarrow>
          bt\<lparr>bc_layouts := AList.update name (remove_generic_row layout w) (bc_layouts bt)\<rparr>)"

section \<open>Prescribed-conditions and output tabs\<close>

text \<open>One group box of the prescribed-conditions tab: the nine spinners of the first
  grid (amplitude, frequency, phase of heave, pitch and morph) and the four of the second
  grid. "Morph divisions" is a \<open>QSpinBox\<close>, the others are \<open>QDoubleSpinBox\<close>es.\<close>

record prescribed_group =
  group_title :: string
  heave_amp :: rat
  heave_freq :: rat
  heave_phase :: rat
  pitch_amp :: rat
  pitch_freq :: rat
  pitch_phase :: rat
  morph_amp :: rat
  morph_freq :: rat
  morph_phase :: rat
  morph_div :: int
  morph_pos :: rat
  le_x :: rat
  le_y :: rat

definition add_prescribed_tag :: "prescribed_group list \<Rightarrow> prescribed_group list" where
  "add_prescribed_tag prescribed_tag_rows =
     (let tag_id = length prescribed_tag_rows + 1
      in prescribed_tag_rows @
         [\<lparr>group_title = ''Prescribed Condition Tag '' @ str_nat tag_id,
           heave_amp = 1, heave_freq = 2 / 10, heave_phase = 90,
           pitch_amp = 30, pitch_freq = 2 / 10, pitch_phase = 0,
           morph_amp = 20, morph_freq = 2 / 10, morph_phase = 0,
           morph_div = 99, morph_pos = 0, le_x = 0, le_y = 0\<rparr>])"

record output_row =
  out_widget :: nat
  out_edit :: string
  out_placeholder :: string

record output_tab =
  probe_layout :: "output_row list"
  surf_layout :: "output_row list"
  out_fresh :: nat

definition add_output_row :: "nat \<Rightarrow> output_row list \<Rightarrow> string \<Rightarrow> output_row list" where
  "add_output_row w layout placeholder =
     layout @ [\<lparr>out_widget = w, out_edit = [], out_placeholder = placeholder\<rparr>]"

definition output_tab_init :: output_tab where
  "output_tab_init =
     \<lparr>probe_layout = add_output_row 0 [] ''Probe file'',
      surf_layout = add_output_row 1 [] ''Surface file'',
      out_fresh = 2\<rparr>"

section \<open>The main window\<close>

record solver_gui =
  geometry_tab :: geometry_tab
  solver_tab :: solver_tab
  physical_tab :: physical_tab
  boundary_tab :: boundary_tab
  prescribed_tab :: "prescribed_group list"
  output_tab :: output_tab

text \<open>\<open>SolverGUI.__init__\<close>. After the tabs are built the boundary tab is handed the
  geometry tab's own row list (\<open>set_geometry_boundary_rows\<close>), so whatever the boundary tab
  reads from \<open>geometry_boundary_rows\<close> later is the current \<open>boundary_rows\<close> of the geometry
  tab.\<close>

definition solver_gui_init :: "error + solver_gui" where
  "solver_gui_init =
     (case boundary_tab_init of
        Inl e \<Rightarrow> Inl e
      | Inr bt \<Rightarrow>
          Inr \<lparr>geometry_tab = geometry_tab_init, solver_tab = solver_tab_init,
               physical_tab = physical_tab_init, boundary_tab = bt,
               prescribed_tab = add_prescribed_tag [], output_tab = output_tab_init\<rparr>)"

definition geometry_boundary_rows :: "solver_gui \<Rightarrow> boundary_row list" where
  "geometry_boundary_rows g = boundary_rows (geometry_tab g)"

definition gui_refresh_active_boundary_tab :: "solver_gui \<Rightarrow> error + solver_gui" where
  "gui_refresh_active_boundary_tab g =
     (case refresh_active_boundary_tab False (geometry_boundary_rows g) (boundary_tab g) of
        Inl e \<Rightarrow> Inl e
      | Inr bt \<Rightarrow> Inr (g\<lparr>boundary_tab := bt\<rparr>))"

text \<open>The add and remove buttons of the dynamic row lists.\<close>

datatype gui_event =
  Geometry geometry_op
| AddBc string
| RemoveBc string nat

fun gui_step :: "gui_event \<Rightarrow> solver_gui \<Rightarrow> solver_gui" where
  "gui_step (Geometry op) g = g\<lparr>geometry_tab := geometry_step op (geometry_tab g)\<rparr>"
| "gui_step (AddBc name) g = g\<lparr>boundary_tab := click_add_bc name (boundary_tab g)\<rparr>"
| "gui_step (RemoveBc name w) g = g\<lparr>boundary_tab := click_remove_bc name w (boundary_tab g)\<rparr>"

definition gui_run :: "gui_event list \<Rightarrow> solver_gui \<Rightarrow> solver_gui" where
  "gui_run evs g = fold gui_step evs g"

section \<open>Floating-point numbers\<close>

text \<open>
  The value of a \<open>QDoubleSpinBox\<close> is a Python \<open>float\<close>. Every float is a rational number;
  what Python computes with floats and how it prints them is not part of this program, and
  is a parameter of the model: the rounded product and quotient, the text of \<open>f"{x}"\<close>, of
  \<open>f"{x:.6e}"\<close>, of \<open>f"{x:.2f}"\<close> and of \<open>f"{x:.4f}"\<close>. \<open>int(x)\<close> truncates towards zero.
\<close>

record pyfloat =
  flt_mul :: "rat \<Rightarrow> rat \<Rightarrow> rat"
  flt_div :: "rat \<Rightarrow> rat \<Rightarrow> rat"
  fmt_float :: "rat \<Rightarrow> string"
  fmt_e6 :: "rat \<Rightarrow> string"
  fmt_f2 :: "rat \<Rightarrow> string"
  fmt_f4 :: "rat \<Rightarrow> string"

definition py_int :: "rat \<Rightarrow> int" where
  "py_int x = (if x < 0 then - \<lfloor>- x\<rfloor> else \<lfloor>x\<rfloor>)"

definition py_truediv :: "pyfloat \<Rightarrow> rat \<Rightarrow> rat \<Rightarrow> error + rat" where
  "py_truediv F x y = (if y = 0 then Inl ZeroDivisionError else Inr (flt_div F x y))"

section \<open>Decimal floats\<close>

text \<open>
  An instance of the floating-point parameter, used to run the model on concrete forms.
  It takes a float for the decimal it prints as: arithmetic is exact, \<open>f"{x:.6e}"\<close> rounds
  to seven significant digits and \<open>f"{x:.2f}"\<close>, \<open>f"{x:.4f}"\<close> to two and four decimals
  (ties to even), and \<open>f"{x}"\<close> prints the decimal in positional notation with at least
  one digit after the point. On the decimals of at most four places that the spin boxes
  of this form hold, and wherever no rounding is needed, this is what CPython prints.
\<close>

definition round_half_even :: "rat \<Rightarrow> int" where
  "round_half_even r =
     (let f = \<lfloor>r\<rfloor>; d = r - of_int f
      in if d < 1 / 2 then f else if d > 1 / 2 then f + 1 else if even f then f else f + 1)"

function pad_left :: "nat \<Rightarrow> string \<Rightarrow> string" where
  "pad_left k s = (if length s < k then pad_left k (CHR ''0'' # s) else s)"
  by pat_completeness auto
termination
  by (relation "measure (\<lambda>(k, s). k - length s)") auto

declare pad_left.simps [simp del]

definition sign_text :: "rat \<Rightarrow> string" where
  "sign_text x = (if x < 0 then ''-'' else [])"

definition dec_fixed :: "nat \<Rightarrow> rat \<Rightarrow> string" where
  "dec_fixed k x =
     (let m = nat (round_half_even (\<bar>x\<bar> * 10 ^ k))
      in sign_text x @ str_nat (m div 10 ^ k) @ ''.'' @ pad_left k (str_nat (m mod 10 ^ k)))"

fun dec_exp :: "nat \<Rightarrow> rat \<Rightarrow> int" where
  "dec_exp n x =
     (if n = 0 then 0
      else if x \<ge> 10 then dec_exp (n - 1) (x / 10) + 1
      else if x < 1 then dec_exp (n - 1) (x * 10) - 1
      else 0)"

declare dec_exp.simps [simp del]

definition scale10 :: "rat \<Rightarrow> int \<Rightarrow> rat" where
  "scale10 x e = (if e \<ge> 0 then x * 10 ^ nat e else x / 10 ^ nat (- e))"

definition dec_e6 :: "rat \<Rightarrow> string" where
  "dec_e6 x =
     (if x = 0 then ''0.000000e+00''
      else
        (let e0 = dec_exp 400 \<bar>x\<bar>;
             m0 = nat (round_half_even (scale10 \<bar>x\<bar> (6 - e0)));
             e = (if m0 \<ge> 10 ^ 7 then e0 + 1 else e0);
             m = (if m0 \<ge> 10 ^ 7 then m0 div 10 else m0)
         in sign_text x @ str_nat (m div 10 ^ 6) @ ''.'' @ pad_left 6 (str_nat (m mod 10 ^ 6))
            @ ''e'' @ (if e < 0 then ''-'' else ''+'') @ pad_left 2 (str_nat (nat \<bar>e\<bar>))))"

fun frac_digits :: "nat \<Rightarrow> rat \<Rightarrow> string" where
  "frac_digits n x =
     (if n = 0 \<or> x = 0 then []
      else (let y = 10 * x; d = \<lfloor>y\<rfloor> in digit_char (nat d) # frac_digits (n - 1) (y - of_int d)))"

declare frac_digits.simps [simp del]

definition strip_zeros :: "string \<Rightarrow> string" where
  "strip_zeros s = rev (dropWhile (\<lambda>c. c = CHR ''0'') (rev s))"

definition dec_repr :: "rat \<Rightarrow> string" where
  "dec_repr x =
     (let n = \<lfloor>\<bar>x\<bar>\<rfloor>;
          ds = strip_zeros (frac_digits 17 (\<bar>x\<bar> - of_int n))
      in sign_text x @ str_nat (nat n) @ ''.'' @ (if ds = [] then ''0'' else ds))"

definition decimal_float :: pyfloat where
  "decimal_float =
     \<lparr>flt_mul = (\<lambda>x y. x * y), flt_div = (\<lambda>x y. x / y),
      fmt_float = dec_repr, fmt_e6 = dec_e6, fmt_f2 = dec_fixed 2, fmt_f4 = dec_fixed 4\<rparr>"

section \<open>Non-dimensional numbers\<close>

text \<open>
  The body of the \<open>try\<close> of \<open>calculate_nondim\<close>: the tab as the body leaves it, and the
  exception that ended it, if any. \<open>calculate_nondim\<close> itself prints the exception.
\<close>

definition nondim_body :: "pyfloat \<Rightarrow> physical_tab \<Rightarrow> physical_tab \<times> error option" where
  "nondim_body F pt =
     (let rho = phys_rho pt; mu = phys_mu pt; U = phys_U pt; L = phys_L pt; a = phys_a pt;
          step1 =
            (if mu \<noteq> 0 then
               (case py_truediv F (flt_mul F (flt_mul F rho U) L) mu of
                  Inl e \<Rightarrow> Inl e
                | Inr re \<Rightarrow> Inr (pt\<lparr>lbl_reynolds := fmt_f2 F re\<rparr>))
             else Inr (pt\<lparr>lbl_reynolds := ''Inf''\<rparr>))
      in case step1 of
           Inl e \<Rightarrow> (pt, Some e)
         | Inr pt1 \<Rightarrow>
             (if a \<noteq> 0 then
                (case py_truediv F U a of
                   Inl e \<Rightarrow> (pt1, Some e)
                 | Inr ma \<Rightarrow> (pt1\<lparr>lbl_mach := fmt_f4 F ma\<rparr>, None))
              else (pt1\<lparr>lbl_mach := ''Inf''\<rparr>, None)))"

definition error_text :: "error \<Rightarrow> string" where
  "error_text e =
     (case e of OSError \<Rightarrow> ''OSError'' | KeyError \<Rightarrow> ''KeyError''
      | AttributeError \<Rightarrow> ''AttributeError'' | ZeroDivisionError \<Rightarrow> ''ZeroDivisionError'')"

definition calculate_nondim ::
  "pyfloat \<Rightarrow> physical_tab \<times> string list \<Rightarrow> physical_tab \<times> string list" where
  "calculate_nondim F st =
     (case nondim_body F (fst st) of
        (pt, None) \<Rightarrow> (pt, snd st)
      | (pt, Some e) \<Rightarrow> (pt, snd st @ [''Error calculating: '' @ error_text e]))"

section \<open>The input file\<close>

text \<open>
  The file is written line by line. A line is kept without its newline; a call such as
  \<open>f.write("...\n\n")\<close> contributes the line and an empty line. \<open>kv\<close> is the line
  \<open>key = value\<close>; \<open>dict_get\<close> is \<open>dict.get(key, default)\<close>.
\<close>

definition kv :: "string \<Rightarrow> string \<Rightarrow> string" where
  "kv key val = key @ '' = '' @ val"

definition dict_get :: "(string \<times> string) list \<Rightarrow> string \<Rightarrow> string \<Rightarrow> string" where
  "dict_get d key dflt = (case map_of d key of None \<Rightarrow> dflt | Some v \<Rightarrow> v)"

definition elem_map :: "(string \<times> string) list" where
  "elem_map = [(''4-Node Quadrilateral'', ''4NodeQuad''), (''3-Node Triangle'', ''3NodeTri''),
               (''6-Node Triangle'', ''6NodeTri'')]"

definition fluid_eqn_map :: "(string \<times> string) list" where
  "fluid_eqn_map = [(''Incompressible Navier-Stokes'', ''navierStokes''),
                    (''Compressible NS'', ''compressibleNS''), (''Euler'', ''euler''),
                    (''Stokes'', ''stokes'')]"

definition mesh_eqn_map :: "(string \<times> string) list" where
  "mesh_eqn_map = [(''None'', ''none''), (''ALE'', ''ale''),
                   (''Prescribed'', ''linearElasticPrescribed''),
                   (''Linear Elasticity'', ''linearElastic'')]"

definition acoustic_eqn_map :: "(string \<times> string) list" where
  "acoustic_eqn_map = [(''None'', ''none''), (''Linear Acoustics'', ''linearAcoustics''),
                       (''LPCE'', ''lpce''), (''Helmholtz'', ''helmholtz''),
                       (''Wave Equation'', ''waveEquation'')]"

definition var_map :: "(string \<times> string) list" where
  "var_map = [(''X-velocity'', ''xVelocity''), (''Y-velocity'', ''yVelocity''),
              (''Z-velocity'', ''zVelocity''), (''X-disp'', ''xDisp''), (''Y-disp'', ''yDisp''),
              (''Z-disp'', ''zDisp''), (''Acoustic-potential'', ''acousticPotential'')]"

definition geometry_lines :: "geometry_tab \<Rightarrow> string list" where
  "geometry_lines gt =
     [''// Geometry details'',
      kv ''crdFile'' (coord_edit gt),
      kv ''cnnFile'' (conn_edit gt),
      kv ''elemType'' (dict_get elem_map (conn_type gt) ''4NodeQuad''),
      []]"

definition solver_lines :: "pyfloat \<Rightarrow> solver_tab \<Rightarrow> string list" where
  "solver_lines F sw =
     [''// Solver details'',
      kv ''solverType'' (lower (sim_type sw)),
      kv ''fluidEqn'' (dict_get fluid_eqn_map (fluid_eqn sw) ''navierStokes''),
      kv ''meshEqn'' (dict_get mesh_eqn_map (mesh_eqn sw) ''linearElasticPrescribed''),
      kv ''acousticEqn'' (dict_get acoustic_eqn_map (acoustic_eqn sw) ''none''),
      kv ''nDims'' (replace_D (dims sw)),
      kv ''nonLinearIterMin'' (str_int (nl_min sw)),
      kv ''nonLinearIterMax'' (str_int (nl_max sw)),
      kv ''nonLinearTolerance'' (fmt_e6 F (nl_tol sw)),
      kv ''timeStepSize'' (fmt_e6 F (time_step sw)),
      kv ''maxTimeSteps'' (str_int (max_steps sw)),
      kv ''rhoInfinity'' (fmt_e6 F (rho_inf sw)),
      kv ''linearSolver'' (lower (lin_solver sw)),
      kv ''linearSolverTol'' (fmt_e6 F (lin_tol sw)),
      kv ''linearSolverIterMax'' (str_int (lin_max sw)),
      kv ''linearSolverRstIter'' (str_int (lin_rst sw)),
      kv ''restartFlag'' (str_int (if restart_flag sw then 1 else 0)),
      kv ''restartTsId'' (str_int (restart_id sw)),
      kv ''restartOutFreq'' (str_int (rst_freq sw)),
      kv ''outputFileType'' (out_type sw),
      kv ''outputStartTimeStep'' (str_int (out_start sw)),
      kv ''outFreq'' (str_int (out_freq sw)),
      kv ''intOutFreq'' (str_int (int_freq sw)),
      kv ''acousticNRBCCentreX'' (fmt_float F (acoustic_nrbc_x sw)),
      kv ''acousticNRBCCentreY'' (fmt_float F (acoustic_nrbc_y sw)),
      kv ''acousticNRBCCentreZ'' (fmt_float F (acoustic_nrbc_z sw)),
      kv ''acousticNRBCInnerRadius'' (str_int (py_int (acoustic_nrbc_inner sw))),
      kv ''acousticNRBCOuterRadius'' (str_int (py_int (acoustic_nrbc_outer sw))),
      []]"

definition fluid_lines :: "pyfloat \<Rightarrow> physical_tab \<Rightarrow> string list" where
  "fluid_lines F pt =
     [''// Fluid properties'',
      kv ''fluidDens'' (fmt_e6 F (phys_rho pt)),
      kv ''fluidVisc'' (fmt_e6 F (phys_mu pt)),
      kv ''fluidGamma'' (fmt_float F (phys_gamma pt)),
      kv ''fluidSpeedOfSound'' (str_int (py_int (phys_a pt))),
      []]"

definition init_cond_lines :: "pyfloat \<Rightarrow> boundary_tab \<Rightarrow> string list" where
  "init_cond_lines F bt =
     [''// Initial conditions'',
      kv ''initPres'' (fmt_e6 F (ic_pres bt)),
      kv ''initXVel'' (fmt_e6 F (ic_xvel bt)),
      kv ''initYVel'' (fmt_e6 F (ic_yvel bt)),
      kv ''initZVel'' (fmt_e6 F (ic_zvel bt)),
      kv ''initXDisp'' (fmt_e6 F (ic_xdisp bt)),
      kv ''initYDisp'' (fmt_e6 F (ic_ydisp bt)),
      kv ''initZDisp'' (fmt_e6 F (ic_zdisp bt)),
      kv ''initPsi'' (fmt_e6 F (ic_psi bt)),
      []]"

subsection \<open>Collecting the boundary conditions\<close>

text \<open>The dictionary \<open>bc_data\<close>; the key \<open>tag\<close> is set for displacement rows only.\<close>

record bc_data =
  d_var :: string
  d_nodes :: string
  d_type :: string
  d_val :: rat
  d_tag :: "int option"

type_synonym bc_lists = "bc_data list \<times> bc_data list \<times> bc_data list"

text \<open>The inner loop over the rows of one sub-tab; the three lists are \<open>flow_bcs\<close>,
  \<open>mesh_bcs\<close> and \<open>acoustic_bcs\<close>. A row without a tag spinner has no item 7, and reading
  it raises.\<close>

fun collect_rows :: "string \<Rightarrow> bool \<Rightarrow> bool \<Rightarrow> bc_row list \<Rightarrow> bc_lists \<Rightarrow> error + bc_lists" where
  "collect_rows var_name is_disp is_acoustic [] acc = Inr acc"
| "collect_rows var_name is_disp is_acoustic (row # rows) (flow_bcs, mesh_bcs, acoustic_bcs) =
     (let type_text = lower (bc_type_combo row)
      in if type_text = ''none''
         then collect_rows var_name is_disp is_acoustic rows (flow_bcs, mesh_bcs, acoustic_bcs)
         else
           (let bc = \<lparr>d_var = var_name, d_nodes = bc_name_edit row, d_type = type_text,
                      d_val = bc_val_spin row, d_tag = None\<rparr>
            in if is_disp then
                 (case bc_tag_spin row of
                    None \<Rightarrow> Inl AttributeError
                  | Some t \<Rightarrow>
                      collect_rows var_name is_disp is_acoustic rows
                        (flow_bcs, mesh_bcs @ [bc\<lparr>d_tag := Some t\<rparr>], acoustic_bcs))
               else if is_acoustic then
                 collect_rows var_name is_disp is_acoustic rows
                   (flow_bcs, mesh_bcs, acoustic_bcs @ [bc])
               else
                 collect_rows var_name is_disp is_acoustic rows
                   (flow_bcs @ [bc], mesh_bcs, acoustic_bcs)))"

text \<open>The outer loop over \<open>bc_layouts.items()\<close>. \<open>var_map.get(tab_name)\<close> is \<open>None\<close> for an
  unknown name, and \<open>None.lower()\<close> raises.\<close>

fun collect_bcs :: "(string \<times> bc_row list) list \<Rightarrow> bc_lists \<Rightarrow> error + bc_lists" where
  "collect_bcs [] acc = Inr acc"
| "collect_bcs ((tab_name, layout) # rest) acc =
     (case map_of var_map tab_name of
        None \<Rightarrow> Inl AttributeError
      | Some var_name \<Rightarrow>
          (let is_disp = contains ''disp'' (lower var_name);
               is_acoustic = contains ''Acoustic'' tab_name
           in case collect_rows var_name is_disp is_acoustic layout acc of
                Inl e \<Rightarrow> Inl e
              | Inr acc' \<Rightarrow> collect_bcs rest acc'))"

subsection \<open>The boundary-condition sections\<close>

definition flow_block :: "pyfloat \<Rightarrow> nat \<times> bc_data \<Rightarrow> string list" where
  "flow_block F p =
     (case p of (i, bc) \<Rightarrow>
        [kv ''index'' (str_nat i), kv ''type'' (d_type bc), kv ''var'' (d_var bc),
         kv ''nodes'' (d_nodes bc)]
        @ (if d_type bc \<noteq> ''matchmeshvel'' then [kv ''val'' (fmt_float F (d_val bc))] else []))"

definition flow_lines :: "pyfloat \<Rightarrow> bc_data list \<Rightarrow> string list" where
  "flow_lines F flow_bcs =
     [''// Flow boundary conditions'', kv ''numberBC'' (str_nat (length flow_bcs))]
     @ concat (map (flow_block F) (enumerate 0 flow_bcs)) @ [[]]"

text \<open>\<open>bc.get('tag', 0)\<close>, and \<open>bc['tag']\<close>, which raises when the key is missing.\<close>

definition get_tag :: "bc_data \<Rightarrow> int" where
  "get_tag bc = (case d_tag bc of None \<Rightarrow> 0 | Some t \<Rightarrow> t)"

definition tag_item :: "bc_data \<Rightarrow> error + int" where
  "tag_item bc = (case d_tag bc of None \<Rightarrow> Inl KeyError | Some t \<Rightarrow> Inr t)"

definition mesh_bcs_filtered :: "bc_data list \<Rightarrow> bc_data list" where
  "mesh_bcs_filtered mesh_bcs =
     filter (\<lambda>bc. get_tag bc \<noteq> 0 \<or> d_type bc \<noteq> ''prescribed'') mesh_bcs"

definition final_type :: "bc_data \<Rightarrow> string" where
  "final_type bc = (if get_tag bc > 0 then ''prescribed'' else d_type bc)"

text \<open>The lines of one mesh boundary condition; the last one is the exception where
  \<open>bc['tag']\<close> raises.\<close>

definition mesh_block :: "pyfloat \<Rightarrow> nat \<times> bc_data \<Rightarrow> (error + string) list" where
  "mesh_block F p =
     (case p of (i, bc) \<Rightarrow>
        map Inr [kv ''index'' (str_nat i), kv ''type'' (final_type bc), kv ''var'' (d_var bc),
                 kv ''nodes'' (d_nodes bc)]
        @ [if final_type bc = ''prescribed''
           then (case tag_item bc of Inl e \<Rightarrow> Inl e | Inr t \<Rightarrow> Inr (kv ''tag'' (str_int t)))
           else Inr (kv ''val'' (fmt_float F (d_val bc)))])"

definition mesh_lines :: "pyfloat \<Rightarrow> bc_data list \<Rightarrow> (error + string) list" where
  "mesh_lines F mesh_bcs =
     map Inr [''// Mesh boundary conditions'',
              kv ''numberBC'' (str_nat (length (mesh_bcs_filtered mesh_bcs)))]
     @ concat (map (mesh_block F) (enumerate 0 (mesh_bcs_filtered mesh_bcs))) @ [Inr []]"

definition acoustic_block :: "pyfloat \<Rightarrow> nat \<times> bc_data \<Rightarrow> string list" where
  "acoustic_block F p =
     (case p of (i, bc) \<Rightarrow>
        [kv ''index'' (str_nat i), kv ''type'' (d_type bc), kv ''var'' (d_var bc),
         kv ''nodes'' (d_nodes bc), kv ''val'' (fmt_float F (d_val bc))])"

definition acoustic_lines :: "pyfloat \<Rightarrow> bc_data list \<Rightarrow> string list" where
  "acoustic_lines F acoustic_bcs =
     [''// Acoustic boundary conditions'', kv ''numberBC'' (str_nat (length acoustic_bcs))]
     @ concat (map (acoustic_block F) (enumerate 0 acoustic_bcs)) @ [[]]"

subsection \<open>Prescribed motion and output files\<close>

definition prescribed_block :: "pyfloat \<Rightarrow> nat \<times> prescribed_group \<Rightarrow> string list" where
  "prescribed_block F p =
     (case p of (i, grp) \<Rightarrow>
        [kv ''tag'' (str_nat (i + 1)),
         kv ''heaveAmp'' (fmt_float F (heave_amp grp)),
         kv ''heaveFreq'' (fmt_float F (heave_freq grp)),
         kv ''heavePhase'' (str_int (py_int (heave_phase grp))),
         kv ''pitchAmp'' (str_int (py_int (pitch_amp grp))),
         kv ''pitchFreq'' (fmt_float F (pitch_freq grp)),
         kv ''pitchPhase'' (str_int (py_int (pitch_phase grp))),
         ''pitchAxisX = 0'',
         ''pitchAxisY = 0'',
         kv ''morphAmp'' (str_int (py_int (morph_amp grp))),
         kv ''morphFreq'' (fmt_float F (morph_freq grp)),
         kv ''morphPhase'' (str_int (py_int (morph_phase grp))),
         kv ''morphPos'' (str_int (py_int (morph_pos grp))),
         kv ''morphDiv'' (str_int (morph_div grp)),
         kv ''LEPosX'' (str_int (py_int (le_x grp))),
         kv ''LEPosY'' (str_int (py_int (le_y grp))),
         ''chordLength = 1''])"

definition prescribed_lines :: "pyfloat \<Rightarrow> prescribed_group list \<Rightarrow> string list" where
  "prescribed_lines F prescribed_tag_rows =
     [''// Prescribed motion details'', kv ''numberBC'' (str_nat (length prescribed_tag_rows))]
     @ concat (map (prescribed_block F) (enumerate 0 prescribed_tag_rows)) @ [[]]"

text \<open>The non-empty texts of the rows of an output layout, and their two lines each.\<close>

definition output_texts :: "output_row list \<Rightarrow> string list" where
  "output_texts layout = filter (\<lambda>txt. txt \<noteq> []) (map out_edit layout)"

definition file_block :: "nat \<times> string \<Rightarrow> string list" where
  "file_block p = (case p of (i, txt) \<Rightarrow> [kv ''tag'' (str_nat (i + 1)), kv ''nodes'' txt])"

definition probe_lines :: "output_row list \<Rightarrow> string list" where
  "probe_lines layout =
     [''// Output time history details'', kv ''numberFiles'' (str_nat (length (output_texts layout)))]
     @ concat (map file_block (enumerate 0 (output_texts layout))) @ [[]]"

definition surf_lines :: "output_row list \<Rightarrow> string list" where
  "surf_lines layout =
     [''// Output integrated surface details'',
      kv ''numberFiles'' (str_nat (length (output_texts layout)))]
     @ concat (map file_block (enumerate 0 (output_texts layout)))"

subsection \<open>The body of the try block\<close>

text \<open>
  What the body of the \<open>with\<close> statement does, in order: \<open>Inr line\<close> writes a line,
  \<open>Inl e\<close> is the point where the exception \<open>e\<close> is raised.
\<close>

definition file_body :: "pyfloat \<Rightarrow> solver_gui \<Rightarrow> (error + string) list" where
  "file_body F g =
     map Inr ([''// Input file for solver'', []]
              @ geometry_lines (geometry_tab g)
              @ solver_lines F (solver_tab g)
              @ fluid_lines F (physical_tab g)
              @ init_cond_lines F (boundary_tab g))
     @ (case collect_bcs (bc_layouts (boundary_tab g)) ([], [], []) of
          Inl e \<Rightarrow> [Inl e]
        | Inr (flow_bcs, mesh_bcs, acoustic_bcs) \<Rightarrow>
            map Inr (flow_lines F flow_bcs)
            @ mesh_lines F mesh_bcs
            @ map Inr (acoustic_lines F acoustic_bcs
                       @ prescribed_lines F (prescribed_tab g)
                       @ probe_lines (probe_layout (output_tab g))
                       @ surf_lines (surf_layout (output_tab g))
                       @ [[], ''// End of input file'']))"

subsection \<open>Writing the file\<close>

text \<open>
  The world outside the form: the files by path, the paths that cannot be opened for
  writing, the number of lines that can still be written before a write fails (\<open>None\<close>:
  no write fails), and what has been printed.
\<close>

record world =
  gui :: solver_gui
  files :: "string \<rightharpoonup> string"
  open_denied :: "string \<Rightarrow> bool"
  write_quota :: "nat option"
  stdout :: "string list"

fun run_writes :: "nat option \<Rightarrow> (error + string) list \<Rightarrow> string list \<times> error option" where
  "run_writes q [] = ([], None)"
| "run_writes q (Inl e # rest) = ([], Some e)"
| "run_writes q (Inr line # rest) =
     (if q = Some 0 then ([], Some OSError)
      else (case run_writes (map_option (\<lambda>k. k - 1) q) rest of
              (written, exc) \<Rightarrow> (line # written, exc)))"

definition unlines :: "string list \<Rightarrow> string" where
  "unlines ls = concat (map (\<lambda>l. l @ [CHR 0x0A]) ls)"

text \<open>The \<open>try\<close> block: \<open>open(path, 'w')\<close> creates or truncates the file, the body writes
  into it; the result is the world as the block leaves it and the exception that ended
  it, if any.\<close>

definition try_block :: "pyfloat \<Rightarrow> string \<Rightarrow> world \<Rightarrow> world \<times> error option" where
  "try_block F path w =
     (if open_denied w path then (w, Some OSError)
      else (case run_writes (write_quota w) (file_body F (gui w)) of
              (written, exc) \<Rightarrow> (w\<lparr>files := (files w)(path \<mapsto> unlines written)\<rparr>, exc)))"

text \<open>\<open>except Exception\<close> handles every exception of the class \<open>Exception\<close>.\<close>

definition is_Exception :: "error \<Rightarrow> bool" where
  "is_Exception e =
     (case e of OSError \<Rightarrow> True | KeyError \<Rightarrow> True | AttributeError \<Rightarrow> True
      | ZeroDivisionError \<Rightarrow> True)"

text \<open>\<open>save_input_file\<close>; \<open>path\<close> is what the save dialog returned, empty when the dialog
  was cancelled. \<open>Inl e\<close> is an exception that reaches the caller.\<close>

definition save_input_file :: "pyfloat \<Rightarrow> string \<Rightarrow> world \<Rightarrow> error + world" where
  "save_input_file F path w =
     (if path = [] then Inr w
      else (case try_block F path w of
              (w', None) \<Rightarrow> Inr w'
            | (w', Some e) \<Rightarrow>
                if is_Exception e
                then Inr (w'\<lparr>stdout := stdout w' @ [''Error saving file: '' @ error_text e]\<rparr>)
                else Inl e))"

section \<open>Sequential labels\<close>

text \<open>The labels \<open>B-1\<close>, ..., \<open>B-n\<close> in this order.\<close>

definition sequential_labels :: "string list \<Rightarrow> bool" where
  "sequential_labels ls = (ls = map (\<lambda>i. b_label (i + 1)) [0..<length ls])"

text \<open>The invariants of the dynamic row lists: in the geometry tab the labels are
  sequential and the scroll layout shows the rows of \<open>boundary_rows\<close> in their order; in
  the boundary tab the labels of every sub-tab layout are sequential.\<close>

definition geometry_inv :: "geometry_tab \<Rightarrow> bool" where
  "geometry_inv g \<longleftrightarrow>
     sequential_labels (map row_label (boundary_rows g))
     \<and> scroll_layout g = map row_widget (boundary_rows g)"

definition bc_inv :: "boundary_tab \<Rightarrow> bool" where
  "bc_inv bt \<longleftrightarrow> (\<forall>p \<in> set (bc_layouts bt). sequential_labels (map bc_label (snd p)))"

definition gui_inv :: "solver_gui \<Rightarrow> bool" where
  "gui_inv g \<longleftrightarrow> geometry_inv (geometry_tab g) \<and> bc_inv (boundary_tab g)"

text \<open>A sample session of adding and removing rows.\<close>

definition demo_events :: "gui_event list" where
  "demo_events =
     [Geometry AddBoundaryRow, Geometry AddBoundaryRow, Geometry (RemoveBoundaryRow 1),
      AddBc ''X-velocity'', AddBc ''X-velocity'', RemoveBc ''X-velocity'' 0, AddBc ''Y-disp'']"

section \<open>Names used in the statements\<close>

text \<open>The name that \<open>refresh_active_boundary_tab\<close> gives the boundary-condition row of a
  geometry row: nothing for an empty file path, else the base name without its
  extension.\<close>

definition default_name :: "boundary_row \<Rightarrow> string" where
  "default_name row =
     (if row_edit row = [] then [] else splitext_root (basename (row_edit row)))"

text \<open>The name of the sub-tab that is current.\<close>

definition active_tab :: "solver_gui \<Rightarrow> string" where
  "active_tab g = tabText (boundary_tab g) (bc_tabs_current (boundary_tab g))"

section \<open>A filled-in form\<close>

text \<open>
  A form as a user may have filled it in: two boundary files, the second one without a
  path yet; three flow conditions on the X-velocity, four rows in the X-displacement
  sub-tab, one acoustic condition; two prescribed-motion groups; two probe rows, one of
  them empty, and one surface file. The Y-velocity sub-tab is the current one.
\<close>

definition demo_boundary_file :: boundary_row where
  "demo_boundary_file =
     \<lparr>row_widget = 0, row_label = ''B-1'', row_edit = ''/data/mesh/inlet.dat'',
      row_placeholder = ''Select file for Boundary 1...'', row_btn_del_visible = True\<rparr>"

definition demo_geometry :: geometry_tab where
  "demo_geometry =
     \<lparr>coord_edit = ''/data/mesh/nodes.crd'', conn_edit = ''/data/mesh/elems.cnn'',
      conn_type = ''3-Node Triangle'',
      boundary_rows =
        [demo_boundary_file,
         \<lparr>row_widget = 1, row_label = ''B-2'', row_edit = [],
          row_placeholder = ''Select file for Boundary 2...'', row_btn_del_visible = True\<rparr>],
      scroll_layout = [0, 1], geo_fresh = 2\<rparr>"

definition velocity_row :: "nat \<Rightarrow> string \<Rightarrow> string \<Rightarrow> string \<Rightarrow> rat \<Rightarrow> bc_row" where
  "velocity_row w lbl name ty v =
     \<lparr>bc_widget = w, bc_label = lbl, bc_name_edit = name,
      bc_type_items = [''None'', ''Dirichlet'', ''matchMeshVel''], bc_type_combo = ty,
      bc_val_spin = v, bc_tag_spin = None\<rparr>"

definition disp_row :: "nat \<Rightarrow> string \<Rightarrow> string \<Rightarrow> string \<Rightarrow> rat \<Rightarrow> int \<Rightarrow> bc_row" where
  "disp_row w lbl name ty v t =
     \<lparr>bc_widget = w, bc_label = lbl, bc_name_edit = name,
      bc_type_items = [''None'', ''Dirichlet'', ''prescribed''], bc_type_combo = ty,
      bc_val_spin = v, bc_tag_spin = Some t\<rparr>"

definition demo_off_row :: bc_row where
  "demo_off_row = disp_row 7 ''B-4'' ''off'' ''None'' 0 2"

definition demo_disp_rows :: "bc_row list" where
  "demo_disp_rows =
     [disp_row 4 ''B-1'' ''wing'' ''Dirichlet'' 0 1,
      disp_row 5 ''B-2'' ''wall'' ''Dirichlet'' (1 / 4) 0,
      disp_row 6 ''B-3'' ''flap'' ''prescribed'' 0 0,
      demo_off_row]"

definition demo_boundary :: boundary_tab where
  "demo_boundary =
     \<lparr>ic_pres = 0, ic_xvel = 1, ic_yvel = 0, ic_zvel = 0,
      ic_xdisp = 0, ic_ydisp = 0, ic_zdisp = 0, ic_psi = 0,
      bc_tabs_current = 1,
      bc_layouts =
        [(''X-velocity'',
          [velocity_row 1 ''B-1'' ''inlet'' ''Dirichlet'' (3 / 2),
           velocity_row 2 ''B-2'' ''wing'' ''matchMeshVel'' 0,
           velocity_row 3 ''B-3'' ''outlet'' ''None'' 0]),
         (''Y-velocity'', []), (''Z-velocity'', []),
         (''X-disp'', demo_disp_rows),
         (''Y-disp'', []), (''Z-disp'', []),
         (''Acoustic-potential'',
          [\<lparr>bc_widget = 8, bc_label = ''B-1'', bc_name_edit = ''far'',
            bc_type_items = [''None'', ''Dirichlet''], bc_type_combo = ''Dirichlet'',
            bc_val_spin = 0, bc_tag_spin = None\<rparr>])],
      bt_fresh = 9\<rparr>"

definition demo_output :: output_tab where
  "demo_output =
     \<lparr>probe_layout =
        [\<lparr>out_widget = 0, out_edit = ''probes.dat'', out_placeholder = ''Probe file''\<rparr>,
         \<lparr>out_widget = 2, out_edit = [], out_placeholder = ''Probe file''\<rparr>],
      surf_layout =
        [\<lparr>out_widget = 1, out_edit = ''wing.dat'', out_placeholder = ''Surface file''\<rparr>],
      out_fresh = 3\<rparr>"

definition demo_gui :: solver_gui where
  "demo_gui =
     \<lparr>geometry_tab = demo_geometry, solver_tab = solver_tab_init,
      physical_tab = physical_tab_init, boundary_tab = demo_boundary,
      prescribed_tab = add_prescribed_tag (add_prescribed_tag []),
      output_tab = demo_output\<rparr>"

section \<open>The boundary conditions that are written, stated from the rows\<close>

text \<open>
  The three lists of the save routine, stated directly from the form: a sub-tab is a flow,
  mesh or acoustic sub-tab according to its name; the rows that count are those whose
  selected type is not \<open>None\<close>; each such row gives one entry with the variable of the
  sub-tab, the name field as nodes, the lower-cased type, the value and, in a mesh
  sub-tab, the tag.
\<close>

datatype bc_kind = Flow | Mesh | Acoustic

definition tab_kind :: "string \<Rightarrow> bc_kind option" where
  "tab_kind tab_name =
     (case map_of var_map tab_name of
        None \<Rightarrow> None
      | Some var_name \<Rightarrow>
          Some (if contains ''disp'' (lower var_name) then Mesh
                else if contains ''Acoustic'' tab_name then Acoustic
                else Flow))"

definition selected_rows :: "bc_row list \<Rightarrow> bc_row list" where
  "selected_rows rows = filter (\<lambda>row. lower (bc_type_combo row) \<noteq> ''none'') rows"

definition row_bc :: "bc_kind \<Rightarrow> string \<Rightarrow> bc_row \<Rightarrow> bc_data" where
  "row_bc k var_name row =
     \<lparr>d_var = var_name, d_nodes = bc_name_edit row, d_type = lower (bc_type_combo row),
      d_val = bc_val_spin row, d_tag = (if k = Mesh then bc_tag_spin row else None)\<rparr>"

definition tab_bcs :: "bc_kind \<Rightarrow> string \<times> bc_row list \<Rightarrow> bc_data list" where
  "tab_bcs k p =
     (case p of (tab_name, rows) \<Rightarrow>
        if tab_kind tab_name = Some k
        then map (row_bc k (dict_get var_map tab_name [])) (selected_rows rows)
        else [])"

definition bcs_of_kind :: "bc_kind \<Rightarrow> (string \<times> bc_row list) list \<Rightarrow> bc_data list" where
  "bcs_of_kind k layouts = concat (map (tab_bcs k) layouts)"

text \<open>The shape in which the boundary tab keeps its layouts: every sub-tab name is one of
  the known variables, and the rows of a displacement sub-tab have a tag spinner.\<close>

definition tab_wellformed :: "string \<times> bc_row list \<Rightarrow> bool" where
  "tab_wellformed p =
     (case p of (tab_name, rows) \<Rightarrow>
        tab_kind tab_name \<noteq> None
        \<and> (tab_kind tab_name = Some Mesh \<longrightarrow> (\<forall>row \<in> set rows. bc_tag_spin row \<noteq> None)))"

definition bcs_wellformed :: "(string \<times> bc_row list) list \<Rightarrow> bool" where
  "bcs_wellformed layouts = (\<forall>p \<in> set layouts. tab_wellformed p)"

section \<open>The lines of a complete file\<close>

text \<open>
  The lines of one mesh boundary condition when \<open>bc['tag']\<close> does not raise, and the
  lines of the whole file when nothing raises, stated from the form.
\<close>

definition mesh_block_text :: "pyfloat \<Rightarrow> nat \<times> bc_data \<Rightarrow> string list" where
  "mesh_block_text F p =
     (case p of (i, bc) \<Rightarrow>
        [kv ''index'' (str_nat i), kv ''type'' (final_type bc), kv ''var'' (d_var bc),
         kv ''nodes'' (d_nodes bc),
         if final_type bc = ''prescribed'' then kv ''tag'' (str_int (get_tag bc))
         else kv ''val'' (fmt_float F (d_val bc))])"

definition mesh_text :: "pyfloat \<Rightarrow> bc_data list \<Rightarrow> string list" where
  "mesh_text F mesh_bcs =
     [''// Mesh boundary conditions'',
      kv ''numberBC'' (str_nat (length (mesh_bcs_filtered mesh_bcs)))]
     @ concat (map (mesh_block_text F) (enumerate 0 (mesh_bcs_filtered mesh_bcs))) @ [[]]"

definition file_lines :: "pyfloat \<Rightarrow> solver_gui \<Rightarrow> string list" where
  "file_lines F g =
     [''// Input file for solver'', []]
     @ geometry_lines (geometry_tab g)
     @ solver_lines F (solver_tab g)
     @ fluid_lines F (physical_tab g)
     @ init_cond_lines F (boundary_tab g)
     @ flow_lines F (bcs_of_kind Flow (bc_layouts (boundary_tab g)))
     @ mesh_text F (bcs_of_kind Mesh (bc_layouts (boundary_tab g)))
     @ acoustic_lines F (bcs_of_kind Acoustic (bc_layouts (boundary_tab g)))
     @ prescribed_lines F (prescribed_tab g)
     @ probe_lines (probe_layout (output_tab g))
     @ surf_lines (surf_layout (output_tab g))
     @ [[], ''// End of input file'']"

text \<open>A line of the form \<open>key = value\<close> for the given value, whatever the key; and a
  sequence of writes that has such a line.\<close>

definition value_line :: "string \<Rightarrow> string \<Rightarrow> bool" where
  "value_line v s =
     (length ('' = '' @ v) \<le> length s \<and> drop (length s - length ('' = '' @ v)) s = '' = '' @ v)"

definition value_written :: "string \<Rightarrow> (error + string) list \<Rightarrow> bool" where
  "value_written v body =
     list_ex (\<lambda>a. case a of Inl e \<Rightarrow> False | Inr s \<Rightarrow> value_line v s) body"

text \<open>A world around the filled-in form: no files yet, one directory that cannot be
  written to, and a disk on which the fourth line can no longer be written.\<close>

definition demo_world :: world where
  "demo_world =
     \<lparr>gui = demo_gui, files = Map.empty, open_denied = (\<lambda>p. take 10 p = ''/readonly/''),
      write_quota = Some 3, stdout = []\<rparr>"

section \<open>Evaluation on concrete forms\<close>

lemma floor_rat_numeral_div: "\<lfloor>numeral a / numeral b :: rat\<rfloor> = numeral a div numeral b"
  by (metis floor_divide_of_int_eq of_int_numeral)

lemma floor_rat_one_div: "\<lfloor>1 / numeral b :: rat\<rfloor> = 1 div numeral b"
  by (metis floor_divide_of_int_eq of_int_numeral of_int_1)

lemmas float_eval =
  dec_repr_def dec_e6_def dec_fixed_def frac_digits.simps dec_exp.simps str_nat.simps
  pad_left.simps strip_zeros_def sign_text_def round_half_even_def scale10_def digit_char_def
  Let_def str_int_def py_int_def floor_rat_numeral_div floor_rat_one_div decimal_float_def

section \<open>Non-dimensional numbers: no division by zero\<close>

text \<open>
  C10. \<open>calculate_nondim\<close> never divides by zero: for every assignment of the spinner
  values the body of the \<open>try\<close> ends without an exception (so no \<open>ZeroDivisionError\<close> is
  raised and nothing is printed); the Reynolds field shows \<open>Inf\<close> when \<open>mu = 0\<close> and the
  formatted quotient \<open>rho*U*L/mu\<close> otherwise; the Mach field shows \<open>Inf\<close> when \<open>a = 0\<close>
  and the formatted quotient \<open>U/a\<close> otherwise.
\<close>

theorem calculate_nondim_no_division_by_zero:
  "snd (nondim_body F pt) = None
   \<and> calculate_nondim F (pt, out) = (fst (nondim_body F pt), out)
   \<and> lbl_reynolds (fst (nondim_body F pt)) =
       (if phys_mu pt = 0 then ''Inf''
        else fmt_f2 F (flt_div F (flt_mul F (flt_mul F (phys_rho pt) (phys_U pt)) (phys_L pt)) (phys_mu pt)))
   \<and> lbl_mach (fst (nondim_body F pt)) =
       (if phys_a pt = 0 then ''Inf'' else fmt_f4 F (flt_div F (phys_U pt) (phys_a pt)))"
  by (simp add: nondim_body_def calculate_nondim_def py_truediv_def Let_def)

theorem calculate_nondim_no_division_by_zero_witness:
  "snd (nondim_body decimal_float (physical_tab_init\<lparr>phys_mu := 0\<rparr>)) = None
   \<and> lbl_reynolds (fst (nondim_body decimal_float (physical_tab_init\<lparr>phys_mu := 0\<rparr>))) = ''Inf''
   \<and> lbl_mach (fst (nondim_body decimal_float (physical_tab_init\<lparr>phys_mu := 0\<rparr>))) = ''0.0029''"
  using calculate_nondim_no_division_by_zero
          [of decimal_float "physical_tab_init\<lparr>phys_mu := 0\<rparr>" "[]"]
  by (simp add: physical_tab_init_def float_eval split del: if_split)

section \<open>Properties of the geometry tab\<close>

lemma length_refresh_ui: "length (boundary_rows (refresh_ui g)) = length (boundary_rows g)"
  by (simp add: refresh_ui_def Let_def)

lemma length_add_boundary_row:
  "length (boundary_rows (add_boundary_row g)) = Suc (length (boundary_rows g))"
  by (simp add: add_boundary_row_def Let_def length_refresh_ui)

lemma pop_row_nonempty: "1 < length rows \<Longrightarrow> pop_row w rows \<noteq> []"
  by (cases rows) auto

lemma refresh_ui_nonempty: "boundary_rows g \<noteq> [] \<Longrightarrow> boundary_rows (refresh_ui g) \<noteq> []"
  using length_refresh_ui [of g] by (metis length_0_conv)

lemma remove_boundary_row_nonempty:
  "boundary_rows g \<noteq> [] \<Longrightarrow> boundary_rows (remove_boundary_row w g) \<noteq> []"
  by (simp add: remove_boundary_row_def refresh_ui_nonempty pop_row_nonempty)

lemma add_boundary_row_nonempty: "boundary_rows (add_boundary_row g) \<noteq> []"
  using length_add_boundary_row [of g] by auto

lemma geometry_step_nonempty:
  "boundary_rows g \<noteq> [] \<Longrightarrow> boundary_rows (geometry_step op g) \<noteq> []"
  by (cases op) (simp_all add: add_boundary_row_nonempty remove_boundary_row_nonempty)

lemma geometry_run_nonempty:
  "boundary_rows g \<noteq> [] \<Longrightarrow> boundary_rows (geometry_run ops g) \<noteq> []"
  unfolding geometry_run_def
proof (induction ops arbitrary: g)
  case Nil
  then show ?case by simp
next
  case (Cons op ops)
  have "boundary_rows (geometry_step op g) \<noteq> []"
    using Cons.prems by (rule geometry_step_nonempty)
  then show ?case using Cons.IH by simp
qed

lemma length_geometry_tab_init: "length (boundary_rows geometry_tab_init) = 1"
  by (simp add: geometry_tab_init_def length_add_boundary_row)

text \<open>
  C9. The boundary-file list of the geometry tab is never empty: initialisation creates
  one row, \<open>remove_boundary_row\<close> returns the tab unchanged whenever the list holds one
  row or fewer, and after every sequence of add and remove operations at least one row
  remains.
\<close>

theorem boundary_rows_never_empty:
  "length (boundary_rows geometry_tab_init) = 1
   \<and> (length (boundary_rows g) \<le> 1 \<longrightarrow> remove_boundary_row w g = g)
   \<and> 1 \<le> length (boundary_rows (geometry_run ops geometry_tab_init))"
proof -
  have "boundary_rows geometry_tab_init \<noteq> []"
    using length_geometry_tab_init by auto
  then have "boundary_rows (geometry_run ops geometry_tab_init) \<noteq> []"
    by (rule geometry_run_nonempty)
  then have "1 \<le> length (boundary_rows (geometry_run ops geometry_tab_init))"
    by (cases "boundary_rows (geometry_run ops geometry_tab_init)") simp_all
  then show ?thesis
    by (simp add: length_geometry_tab_init remove_boundary_row_def)
qed

theorem boundary_rows_never_empty_witness:
  "length (boundary_rows geometry_tab_init) \<le> 1
   \<and> remove_boundary_row 0 geometry_tab_init = geometry_tab_init
   \<and> 1 \<le> length (boundary_rows
        (geometry_run [AddBoundaryRow, RemoveBoundaryRow 0, RemoveBoundaryRow 1] geometry_tab_init))"
  using boundary_rows_never_empty [of geometry_tab_init 0
      "[AddBoundaryRow, RemoveBoundaryRow 0, RemoveBoundaryRow 1]"]
  by simp

section \<open>Sequential numbering of the dynamic rows\<close>

lemma map_enumerate_fst: "map (\<lambda>p. f (fst p)) (enumerate n xs) = map f [n..<n + length xs]"
  by (rule nth_equalityI) (simp_all add: nth_enumerate_eq)

lemma map_enumerate_snd: "map (\<lambda>p. f (snd p)) (enumerate n xs) = map f xs"
  by (rule nth_equalityI) (simp_all add: nth_enumerate_eq)

lemma labels_refresh_ui:
  "map row_label (boundary_rows (refresh_ui g)) =
     map (\<lambda>i. b_label (i + 1)) [0..<length (boundary_rows g)]"
proof -
  have "row_label \<circ> refresh_row b = (\<lambda>p. b_label (fst p + 1))" for b
    by (simp add: fun_eq_iff refresh_row_def split_def)
  then show ?thesis
    using map_enumerate_fst [of "\<lambda>i. b_label (i + 1)" 0 "boundary_rows g"]
    by (simp add: refresh_ui_def Let_def)
qed

lemma sequential_refresh_ui:
  "sequential_labels (map row_label (boundary_rows (refresh_ui g)))"
  by (simp add: sequential_labels_def labels_refresh_ui length_refresh_ui)

lemma widgets_refresh_ui:
  "map row_widget (boundary_rows (refresh_ui g)) = map row_widget (boundary_rows g)"
proof -
  have "row_widget \<circ> refresh_row b = (\<lambda>p. row_widget (snd p))" for b
    by (simp add: fun_eq_iff refresh_row_def split_def)
  then show ?thesis
    using map_enumerate_snd [of row_widget 0 "boundary_rows g"]
    by (simp add: refresh_ui_def Let_def)
qed

lemma layout_refresh_ui: "scroll_layout (refresh_ui g) = scroll_layout g"
  by (simp add: refresh_ui_def Let_def)

lemma widgets_pop_row: "map row_widget (pop_row w rows) = remove1 w (map row_widget rows)"
  by (induction rows) auto

lemma geometry_inv_add: "geometry_inv g \<Longrightarrow> geometry_inv (add_boundary_row g)"
  by (simp add: geometry_inv_def add_boundary_row_def Let_def sequential_refresh_ui
      widgets_refresh_ui layout_refresh_ui)

lemma geometry_inv_remove: "geometry_inv g \<Longrightarrow> geometry_inv (remove_boundary_row w g)"
  by (simp add: geometry_inv_def remove_boundary_row_def sequential_refresh_ui
      widgets_refresh_ui layout_refresh_ui widgets_pop_row)

lemma geometry_inv_step: "geometry_inv g \<Longrightarrow> geometry_inv (geometry_step op g)"
  by (cases op) (simp_all add: geometry_inv_add geometry_inv_remove)

lemma geometry_inv_init: "geometry_inv geometry_tab_init"
  by (simp add: geometry_inv_def geometry_tab_init_def add_boundary_row_def Let_def sequential_refresh_ui
      widgets_refresh_ui layout_refresh_ui)

lemma labels_refresh_bc_labels:
  "map bc_label (refresh_bc_labels layout) = map (\<lambda>i. b_label (i + 1)) [0..<length layout]"
proof -
  have "bc_label \<circ> refresh_bc_label = (\<lambda>p. b_label (fst p + 1))"
    by (simp add: fun_eq_iff refresh_bc_label_def split_def)
  then show ?thesis
    using map_enumerate_fst [of "\<lambda>i. b_label (i + 1)" 0 layout]
    by (simp add: refresh_bc_labels_def)
qed

lemma length_refresh_bc_labels: "length (refresh_bc_labels layout) = length layout"
  by (simp add: refresh_bc_labels_def)

lemma sequential_refresh_bc_labels: "sequential_labels (map bc_label (refresh_bc_labels layout))"
  by (simp add: sequential_labels_def labels_refresh_bc_labels length_refresh_bc_labels)

lemma set_alist_update: "set (AList.update k v al) \<subseteq> insert (k, v) (set al)"
  by (induction al) auto

lemma bc_inv_update:
  "bc_inv bt \<Longrightarrow> sequential_labels (map bc_label layout) \<Longrightarrow>
   bc_inv (bt\<lparr>bc_layouts := AList.update name layout (bc_layouts bt)\<rparr>)"
  using set_alist_update [of name layout "bc_layouts bt"]
  by (auto simp add: bc_inv_def)

lemma bc_inv_fresh: "bc_inv (bt\<lparr>bt_fresh := n\<rparr>) = bc_inv bt"
  by (simp add: bc_inv_def)

lemma bc_inv_click_add: "bc_inv bt \<Longrightarrow> bc_inv (click_add_bc name bt)"
  by (simp add: click_add_bc_def add_bc_row_def Let_def bc_inv_update bc_inv_fresh
      sequential_refresh_bc_labels split: option.splits)

lemma bc_inv_click_remove: "bc_inv bt \<Longrightarrow> bc_inv (click_remove_bc name w bt)"
  by (simp add: click_remove_bc_def remove_generic_row_def bc_inv_update
      sequential_refresh_bc_labels split: option.splits)


lemma gui_inv_step: "gui_inv g \<Longrightarrow> gui_inv (gui_step ev g)"
  by (cases ev) (simp_all add: gui_inv_def geometry_inv_step bc_inv_click_add bc_inv_click_remove)

lemma gui_inv_run: "gui_inv g \<Longrightarrow> gui_inv (gui_run evs g)"
  unfolding gui_run_def
proof (induction evs arbitrary: g)
  case Nil
  then show ?case by simp
next
  case (Cons ev evs)
  have "gui_inv (gui_step ev g)"
    using Cons.prems by (rule gui_inv_step)
  then show ?case using Cons.IH by simp
qed

lemma boundary_tab_init_eq:
  "boundary_tab_init =
     Inr (boundary_tab_empty
           \<lparr>bc_layouts :=
              AList.update ''X-velocity'' (add_bc_row 0 [] ''X-velocity'' (Some (b_label 1)))
                (bc_layouts boundary_tab_empty),
            bt_fresh := 1\<rparr>)"
  by (simp add: boundary_tab_init_def refresh_active_boundary_tab_def tabText_def
      boundary_tab_empty_def bc_tab_names_def Let_def)

lemma bc_inv_empty: "bc_inv boundary_tab_empty"
  by (simp add: bc_inv_def boundary_tab_empty_def sequential_labels_def)

lemma bc_inv_init: "boundary_tab_init = Inr bt \<Longrightarrow> bc_inv bt"
  using bc_inv_update [OF bc_inv_empty, of "add_bc_row 0 [] ''X-velocity'' (Some (b_label 1))" "''X-velocity''"]
  by (auto simp add: boundary_tab_init_eq bc_inv_fresh add_bc_row_def Let_def sequential_refresh_bc_labels)

text \<open>
  C3. Sequential row numbering is an invariant of the dynamic row lists: after every
  sequence of add-row and remove-row clicks, starting from the freshly built window, the
  rows of the geometry boundary-file list carry the labels \<open>B-1\<close> to \<open>B-n\<close> in the order
  in which the scroll layout displays them, and so do the rows of every
  boundary-condition sub-tab.
\<close>

theorem row_labels_sequential:
  "\<exists>g0. solver_gui_init = Inr g0
     \<and> sequential_labels (map row_label (boundary_rows (geometry_tab (gui_run evs g0))))
     \<and> scroll_layout (geometry_tab (gui_run evs g0)) =
         map row_widget (boundary_rows (geometry_tab (gui_run evs g0)))
     \<and> (\<forall>(name, layout) \<in> set (bc_layouts (boundary_tab (gui_run evs g0))).
           sequential_labels (map bc_label layout))"
proof -
  obtain bt where bt: "boundary_tab_init = Inr bt"
    using boundary_tab_init_eq by blast
  define g0 where "g0 = \<lparr>geometry_tab = geometry_tab_init, solver_tab = solver_tab_init,
               physical_tab = physical_tab_init, boundary_tab = bt,
               prescribed_tab = add_prescribed_tag [], output_tab = output_tab_init\<rparr>"
  have init: "solver_gui_init = Inr g0"
    by (simp add: solver_gui_init_def bt g0_def)
  have "gui_inv g0"
    by (simp add: gui_inv_def g0_def geometry_inv_init bc_inv_init [OF bt])
  then have "gui_inv (gui_run evs g0)"
    by (rule gui_inv_run)
  then show ?thesis
    using init unfolding gui_inv_def geometry_inv_def bc_inv_def
    by (intro exI [of _ g0]) (simp add: split_def)
qed

lemma solver_gui_init_eq:
  "solver_gui_init =
     Inr \<lparr>geometry_tab = geometry_tab_init, solver_tab = solver_tab_init,
          physical_tab = physical_tab_init,
          boundary_tab = boundary_tab_empty
           \<lparr>bc_layouts :=
              AList.update ''X-velocity'' (add_bc_row 0 [] ''X-velocity'' (Some (b_label 1)))
                (bc_layouts boundary_tab_empty),
            bt_fresh := 1\<rparr>,
          prescribed_tab = add_prescribed_tag [], output_tab = output_tab_init\<rparr>"
  by (simp add: solver_gui_init_def boundary_tab_init_eq)

theorem row_labels_sequential_witness:
  "\<exists>g0. solver_gui_init = Inr g0
     \<and> map row_label (boundary_rows (geometry_tab (gui_run demo_events g0))) = [''B-1'', ''B-2'']
     \<and> map (\<lambda>p. (fst p, map bc_label (snd p))) (bc_layouts (boundary_tab (gui_run demo_events g0))) =
         [(''X-velocity'', [''B-1'', ''B-2'']), (''Y-velocity'', []), (''Z-velocity'', []),
          (''X-disp'', []), (''Y-disp'', [''B-1'']), (''Z-disp'', []), (''Acoustic-potential'', [])]
     \<and> (\<forall>(name, layout) \<in> set (bc_layouts (boundary_tab (gui_run demo_events g0))).
           sequential_labels (map bc_label layout))"
  using row_labels_sequential [of demo_events]
  by (simp add: solver_gui_init_eq demo_events_def gui_run_def geometry_tab_init_def
      add_boundary_row_def remove_boundary_row_def refresh_ui_def refresh_row_def Let_def
      b_label_def str_nat.simps digit_char_def sequential_labels_def
      click_add_bc_def click_remove_bc_def boundary_tab_empty_def bc_tab_names_def
      add_bc_row_def remove_generic_row_def refresh_bc_labels_def refresh_bc_label_def
      split del: if_split)

section \<open>Default names of boundary-condition rows\<close>

lemma names_refresh_bc_labels:
  "map bc_name_edit (refresh_bc_labels layout) = map bc_name_edit layout"
proof -
  have "bc_name_edit \<circ> refresh_bc_label = (\<lambda>p. bc_name_edit (snd p))"
    by (simp add: fun_eq_iff refresh_bc_label_def split_def)
  then show ?thesis
    using map_enumerate_snd [of bc_name_edit 0 layout]
    by (simp add: refresh_bc_labels_def)
qed

lemma name_refresh_bc_labels_nth:
  assumes "j < length layout"
  shows "bc_name_edit (refresh_bc_labels layout ! j) = bc_name_edit (layout ! j)"
proof -
  have "map bc_name_edit (refresh_bc_labels layout) ! j = map bc_name_edit layout ! j"
    by (simp add: names_refresh_bc_labels)
  then show ?thesis
    using assms by (simp add: length_refresh_bc_labels)
qed

lemma length_add_bc_row: "length (add_bc_row w layout name lbl) = Suc (length layout)"
  by (simp add: add_bc_row_def Let_def length_refresh_bc_labels)

lemma name_add_bc_row_old:
  "j < length layout \<Longrightarrow> bc_name_edit (add_bc_row w layout name lbl ! j) = bc_name_edit (layout ! j)"
  by (simp add: add_bc_row_def Let_def name_refresh_bc_labels_nth nth_append)

lemma name_add_bc_row_new:
  "bc_name_edit (add_bc_row w layout name lbl ! length layout) = []"
  by (simp add: add_bc_row_def Let_def name_refresh_bc_labels_nth nth_append)

lemma refresh_rows_names:
  assumes "n \<le> length geom" "length L = k" "k \<le> n"
    and "\<forall>j<k. bc_name_edit (L ! j) = default_name (geom ! j)"
  shows "\<exists>L' f'. refresh_rows False geom name [k..<n] (L, f) = Inr (L', f')
           \<and> length L' = n
           \<and> (\<forall>j<n. bc_name_edit (L' ! j) = default_name (geom ! j))"
  using assms
proof (induction "n - k" arbitrary: k L f)
  case 0
  then show ?case by simp
next
  case (Suc d)
  then have kn: "k < n" by simp
  define L1 where "L1 = add_bc_row f L name (Some (b_label (k + 1)))"
  define L2 where "L2 = (if row_edit (geom ! k) \<noteq> []
      then L1[k := (L1 ! k)\<lparr>bc_name_edit := splitext_root (basename (row_edit (geom ! k)))\<rparr>]
      else L1)"
  have len1: "length L1 = Suc k"
    using Suc.prems by (simp add: L1_def length_add_bc_row)
  have len2: "length L2 = Suc k"
    using len1 by (simp add: L2_def)
  have old1: "bc_name_edit (L1 ! j) = default_name (geom ! j)" if "j < k" for j
    using that Suc.prems by (simp add: L1_def name_add_bc_row_old)
  have new1: "bc_name_edit (L1 ! k) = []"
    using Suc.prems name_add_bc_row_new [of f L name "Some (b_label (k + 1))"] by (simp add: L1_def)
  have names2: "\<forall>j<Suc k. bc_name_edit (L2 ! j) = default_name (geom ! j)"
  proof (intro allI impI)
    fix j assume "j < Suc k"
    then consider "j < k" | "j = k" by linarith
    then show "bc_name_edit (L2 ! j) = default_name (geom ! j)"
    proof cases
      case 1
      then show ?thesis using old1 len1 by (simp add: L2_def)
    next
      case 2
      then show ?thesis using new1 len1 by (simp add: L2_def default_name_def)
    qed
  qed
  have step: "refresh_rows False geom name [k..<n] (L, f) =
              refresh_rows False geom name [Suc k..<n] (L2, f + 1)"
    using kn Suc.prems len1 by (simp add: upt_conv_Cons L1_def L2_def Let_def)
  have "d = n - Suc k" using Suc.hyps by simp
  from Suc.hyps(1) [OF this Suc.prems(1) len2 _ names2, of "f + 1"] kn
  show ?case by (simp add: step)
qed


lemma map_of_update_same: "map_of (AList.update k v al) k = Some v"
  by (simp add: update_conv')

text \<open>
  C4. Boundary file names entered in the geometry tab feed the default
  boundary-condition labels: refreshing the current boundary-condition sub-tab (with the
  boundary tab reading the geometry tab's own row list) succeeds, leaves the geometry tab
  as it is, gives the sub-tab as many rows as the geometry tab has boundary-file rows, and
  the name field of row \<open>i\<close> is the base name, without its extension, of the file of
  geometry row \<open>i\<close> whenever that file path is not empty.
\<close>

theorem bc_names_default_to_boundary_files:
  assumes "bc_tabs_current (boundary_tab g) < length (bc_layouts (boundary_tab g))"
  shows "\<exists>g' layout.
           gui_refresh_active_boundary_tab g = Inr g'
           \<and> geometry_tab g' = geometry_tab g
           \<and> map_of (bc_layouts (boundary_tab g')) (active_tab g) = Some layout
           \<and> length layout = length (boundary_rows (geometry_tab g))
           \<and> (\<forall>i < length (boundary_rows (geometry_tab g)).
                 row_edit (boundary_rows (geometry_tab g) ! i) \<noteq> [] \<longrightarrow>
                 bc_name_edit (layout ! i) =
                   splitext_root (basename (row_edit (boundary_rows (geometry_tab g) ! i))))"
proof -
  define geom where "geom = boundary_rows (geometry_tab g)"
  define bt where "bt = boundary_tab g"
  define name where "name = tabText bt (bc_tabs_current bt)"
  have "name \<in> fst ` set (bc_layouts bt)"
    using assms by (simp add: name_def tabText_def bt_def)
  then obtain target where target: "map_of (bc_layouts bt) name = Some target"
    by (metis domD dom_map_of_conv_image_fst)
  obtain L f where run: "refresh_rows False geom name [0..<length geom] ([], bt_fresh bt) = Inr (L, f)"
    and len: "length L = length geom"
    and names: "\<forall>j<length geom. bc_name_edit (L ! j) = default_name (geom ! j)"
    using refresh_rows_names [of "length geom" geom "[]" 0 name "bt_fresh bt"] by auto
  define g' where
    "g' = g\<lparr>boundary_tab := bt\<lparr>bc_layouts := AList.update name L (bc_layouts bt), bt_fresh := f\<rparr>\<rparr>"
  have res: "gui_refresh_active_boundary_tab g = Inr g'"
    using target run
    by (simp add: gui_refresh_active_boundary_tab_def refresh_active_boundary_tab_def
        geometry_boundary_rows_def Let_def g'_def geom_def [symmetric] bt_def [symmetric]
        name_def [symmetric])
  have "map_of (bc_layouts (boundary_tab g')) (active_tab g) = Some L"
    by (simp add: g'_def active_tab_def bt_def [symmetric] name_def [symmetric] map_of_update_same)
  moreover have "geometry_tab g' = geometry_tab g"
    by (simp add: g'_def)
  moreover have "\<forall>i < length geom. row_edit (geom ! i) \<noteq> [] \<longrightarrow>
                   bc_name_edit (L ! i) = splitext_root (basename (row_edit (geom ! i)))"
    using names by (simp add: default_name_def)
  ultimately show ?thesis
    using res len unfolding geom_def by blast
qed

lemmas demo_defs =
  demo_gui_def demo_geometry_def demo_boundary_def demo_output_def demo_boundary_file_def
  demo_disp_rows_def demo_off_row_def velocity_row_def disp_row_def

theorem bc_names_default_to_boundary_files_witness:
  "bc_tabs_current (boundary_tab demo_gui) < length (bc_layouts (boundary_tab demo_gui))
   \<and> row_edit (boundary_rows (geometry_tab demo_gui) ! 0) = ''/data/mesh/inlet.dat''
   \<and> (\<exists>g' layout.
         gui_refresh_active_boundary_tab demo_gui = Inr g'
         \<and> map_of (bc_layouts (boundary_tab g')) ''Y-velocity'' = Some layout
         \<and> length layout = 2
         \<and> bc_name_edit (layout ! 0) = ''inlet'')"
proof -
  have h: "bc_tabs_current (boundary_tab demo_gui) < length (bc_layouts (boundary_tab demo_gui))"
    by (simp add: demo_defs)
  have e: "row_edit (boundary_rows (geometry_tab demo_gui) ! 0) = ''/data/mesh/inlet.dat''"
    by (simp add: demo_defs)
  have n: "splitext_root (basename ''/data/mesh/inlet.dat'') = ''inlet''"
    by (simp add: splitext_root_def basename_def Let_def)
  have a: "active_tab demo_gui = ''Y-velocity''"
    by (simp add: active_tab_def tabText_def demo_defs)
  have l: "length (boundary_rows (geometry_tab demo_gui)) = 2"
    by (simp add: demo_defs)
  from bc_names_default_to_boundary_files [OF h] obtain g' layout where
    "gui_refresh_active_boundary_tab demo_gui = Inr g'"
    "map_of (bc_layouts (boundary_tab g')) (active_tab demo_gui) = Some layout"
    "length layout = length (boundary_rows (geometry_tab demo_gui))"
    "\<forall>i < length (boundary_rows (geometry_tab demo_gui)).
       row_edit (boundary_rows (geometry_tab demo_gui) ! i) \<noteq> [] \<longrightarrow>
       bc_name_edit (layout ! i) =
         splitext_root (basename (row_edit (boundary_rows (geometry_tab demo_gui) ! i)))"
    by blast
  then have "gui_refresh_active_boundary_tab demo_gui = Inr g'
         \<and> map_of (bc_layouts (boundary_tab g')) ''Y-velocity'' = Some layout
         \<and> length layout = 2
         \<and> bc_name_edit (layout ! 0) = ''inlet''"
    using e n a l by auto
  then show ?thesis using h e by blast
qed

section \<open>Collecting the boundary conditions\<close>

lemma collect_rows_mesh:
  "\<forall>row \<in> set rows. bc_tag_spin row \<noteq> None \<Longrightarrow>
   collect_rows var True ac rows (f, m, a) =
     Inr (f, m @ map (row_bc Mesh var) (selected_rows rows), a)"
proof (induction rows arbitrary: m)
  case Nil
  then show ?case by (simp add: selected_rows_def)
next
  case (Cons row rows)
  then obtain t where t: "bc_tag_spin row = Some t" by auto
  have "collect_rows var True ac rows (f, m', a) =
          Inr (f, m' @ map (row_bc Mesh var) (selected_rows rows), a)" for m'
    using Cons by simp
  then show ?case
    using t by (simp add: selected_rows_def row_bc_def Let_def)
qed

lemma collect_rows_acoustic:
  "collect_rows var False True rows (f, m, a) =
     Inr (f, m, a @ map (row_bc Acoustic var) (selected_rows rows))"
proof (induction rows arbitrary: a)
  case Nil
  then show ?case by (simp add: selected_rows_def)
next
  case (Cons row rows)
  then show ?case
    by (simp add: selected_rows_def row_bc_def Let_def)
qed

lemma collect_rows_flow:
  "collect_rows var False False rows (f, m, a) =
     Inr (f @ map (row_bc Flow var) (selected_rows rows), m, a)"
proof (induction rows arbitrary: f)
  case Nil
  then show ?case by (simp add: selected_rows_def)
next
  case (Cons row rows)
  then show ?case
    by (simp add: selected_rows_def row_bc_def Let_def)
qed

lemma collect_tab:
  assumes "tab_wellformed (tab_name, rows)" and "map_of var_map tab_name = Some var"
  shows "collect_rows var (contains ''disp'' (lower var)) (contains ''Acoustic'' tab_name) rows (f, m, a) =
           Inr (f @ tab_bcs Flow (tab_name, rows), m @ tab_bcs Mesh (tab_name, rows),
                a @ tab_bcs Acoustic (tab_name, rows))"
proof (cases "contains ''disp'' (lower var)")
  case True
  then have "tab_kind tab_name = Some Mesh"
    using assms(2) by (simp add: tab_kind_def)
  then show ?thesis
    using assms True
    by (simp add: tab_wellformed_def tab_bcs_def dict_get_def collect_rows_mesh)
next
  case False
  then show ?thesis
    using assms
    by (cases "contains ''Acoustic'' tab_name")
       (simp_all add: tab_kind_def tab_bcs_def dict_get_def collect_rows_acoustic collect_rows_flow)
qed

lemma collect_bcs_eq:
  "bcs_wellformed layouts \<Longrightarrow>
   collect_bcs layouts (f, m, a) =
     Inr (f @ bcs_of_kind Flow layouts, m @ bcs_of_kind Mesh layouts,
          a @ bcs_of_kind Acoustic layouts)"
proof (induction layouts arbitrary: f m a)
  case Nil
  then show ?case by (simp add: bcs_of_kind_def)
next
  case (Cons p layouts)
  obtain tab_name rows where p: "p = (tab_name, rows)" by (cases p)
  have wf: "tab_wellformed (tab_name, rows)" and wfs: "bcs_wellformed layouts"
    using Cons.prems by (simp_all add: bcs_wellformed_def p)
  then obtain var where var: "map_of var_map tab_name = Some var"
    by (auto simp add: tab_wellformed_def tab_kind_def split: option.splits)
  show ?case
    using Cons.IH [OF wfs] collect_tab [OF wf var]
    by (simp add: p var Let_def bcs_of_kind_def)
qed

lemma collect_bcs_wellformed:
  "bcs_wellformed layouts \<Longrightarrow>
   collect_bcs layouts ([], [], []) =
     Inr (bcs_of_kind Flow layouts, bcs_of_kind Mesh layouts, bcs_of_kind Acoustic layouts)"
  using collect_bcs_eq [of layouts "[]" "[]" "[]"] by simp

lemma selected_rows_type: "row \<in> set (selected_rows rows) \<Longrightarrow> lower (bc_type_combo row) \<noteq> ''none''"
  by (simp add: selected_rows_def)






lemma demo_wellformed: "bcs_wellformed (bc_layouts (boundary_tab demo_gui))"
  by (simp add: bcs_wellformed_def tab_wellformed_def tab_kind_def var_map_def demo_defs
      lower_def lower_char_def)



section \<open>The file of the filled-in form\<close>



lemma demo_geometry_lines:
  "geometry_lines (geometry_tab demo_gui) =
     [''// Geometry details'', ''crdFile = /data/mesh/nodes.crd'',
      ''cnnFile = /data/mesh/elems.cnn'', ''elemType = 3NodeTri'', []]"
  by (simp add: geometry_lines_def demo_defs kv_def dict_get_def elem_map_def)











section \<open>Prescribed-motion tags and displacement boundary conditions\<close>










section \<open>Saving\<close>

lemma value_line_iff: "value_line v s \<longleftrightarrow> (\<exists>key. s = kv key v)"
proof
  assume "value_line v s"
  then have "s = take (length s - length ('' = '' @ v)) s @ '' = '' @ v"
    unfolding value_line_def by (metis append_take_drop_id)
  then show "\<exists>key. s = kv key v"
    unfolding kv_def by blast
next
  assume "\<exists>key. s = kv key v"
  then show "value_line v s"
    by (auto simp add: kv_def value_line_def)
qed

lemma value_written_iff: "value_written v body \<longleftrightarrow> (\<exists>key. Inr (kv key v) \<in> set body)"
proof -
  have "(case a of Inl e \<Rightarrow> False | Inr s \<Rightarrow> value_line v s) \<longleftrightarrow> (\<exists>s. a = Inr s \<and> value_line v s)"
    for a :: "error + string"
    by (cases a) simp_all
  then have "value_written v body \<longleftrightarrow> (\<exists>s. Inr s \<in> set body \<and> value_line v s)"
    by (auto simp add: value_written_def list_ex_iff)
  then show ?thesis
    by (auto simp add: value_line_iff)
qed

lemma mesh_block_no_raise:
  "bc \<in> set (mesh_bcs_filtered mesh_bcs) \<Longrightarrow> mesh_block F (i, bc) = map Inr (mesh_block_text F (i, bc))"
  by (cases "d_tag bc")
     (auto simp add: mesh_bcs_filtered_def mesh_block_def mesh_block_text_def final_type_def
        get_tag_def tag_item_def)

lemma mesh_lines_no_raise: "mesh_lines F mesh_bcs = map Inr (mesh_text F mesh_bcs)"
proof -
  have eq: "map (mesh_block F) (enumerate 0 (mesh_bcs_filtered mesh_bcs)) =
        map (\<lambda>p. map Inr (mesh_block_text F p)) (enumerate 0 (mesh_bcs_filtered mesh_bcs))"
  proof (rule map_cong [OF refl])
    fix p assume mem: "p \<in> set (enumerate 0 (mesh_bcs_filtered mesh_bcs))"
    obtain i bc where p: "p = (i, bc)" by (cases p)
    have "bc \<in> set (mesh_bcs_filtered mesh_bcs)"
      using mem unfolding p by (auto simp add: in_set_enumerate_eq)
    then show "mesh_block F p = map Inr (mesh_block_text F p)"
      unfolding p by (rule mesh_block_no_raise)
  qed
  show ?thesis
    by (simp add: mesh_lines_def mesh_text_def eq map_concat comp_def)
qed

lemma file_body_wellformed:
  "bcs_wellformed (bc_layouts (boundary_tab g)) \<Longrightarrow> file_body F g = map Inr (file_lines F g)"
  by (simp add: file_body_def file_lines_def collect_bcs_wellformed mesh_lines_no_raise)

lemma run_writes_all: "run_writes None (map Inr ls) = (ls, None)"
  by (induction ls) simp_all

lemma run_writes_quota:
  "run_writes (Some k) (map Inr ls) = (take k ls, if k < length ls then Some OSError else None)"
proof (induction ls arbitrary: k)
  case Nil
  then show ?case by simp
next
  case (Cons l ls)
  show ?case
  proof (cases k)
    case 0
    then show ?thesis by simp
  next
    case (Suc k')
    then show ?thesis using Cons [of k'] by simp
  qed
qed

lemma is_Exception_all: "is_Exception e"
  by (cases e) (simp_all add: is_Exception_def)

lemma save_cancelled: "save_input_file F [] w = Inr w"
  by (simp add: save_input_file_def)

lemma save_returns: "\<exists>w'. save_input_file F path w = Inr w'"
  by (simp add: save_input_file_def is_Exception_all split: prod.splits option.splits)

lemma save_open_denied:
  "path \<noteq> [] \<Longrightarrow> open_denied w path \<Longrightarrow>
   save_input_file F path w =
     Inr (w\<lparr>stdout := stdout w @ [''Error saving file: '' @ error_text OSError]\<rparr>)"
  by (simp add: save_input_file_def try_block_def is_Exception_all)

lemma save_write_fails:
  "path \<noteq> [] \<Longrightarrow> \<not> open_denied w path \<Longrightarrow> bcs_wellformed (bc_layouts (boundary_tab (gui w))) \<Longrightarrow>
   write_quota w = Some k \<Longrightarrow> k < length (file_lines F (gui w)) \<Longrightarrow>
   save_input_file F path w =
     Inr (w\<lparr>files := (files w)(path \<mapsto> unlines (take k (file_lines F (gui w)))),
            stdout := stdout w @ [''Error saving file: '' @ error_text OSError]\<rparr>)"
  by (simp add: save_input_file_def try_block_def is_Exception_all file_body_wellformed
      run_writes_quota)

lemma save_succeeds:
  "path \<noteq> [] \<Longrightarrow> \<not> open_denied w path \<Longrightarrow> bcs_wellformed (bc_layouts (boundary_tab (gui w))) \<Longrightarrow>
   write_quota w = None \<Longrightarrow>
   save_input_file F path w =
     Inr (w\<lparr>files := (files w)(path \<mapsto> unlines (file_lines F (gui w)))\<rparr>)"
  by (simp add: save_input_file_def try_block_def file_body_wellformed run_writes_all)

lemma try_block_frame:
  "try_block F path w = (w', exc) \<Longrightarrow>
   gui w' = gui w \<and> stdout w' = stdout w \<and> open_denied w' = open_denied w
   \<and> write_quota w' = write_quota w \<and> (\<forall>q. q \<noteq> path \<longrightarrow> files w' q = files w q)"
  by (auto simp add: try_block_def split: if_splits prod.splits)

lemma save_frame:
  assumes "save_input_file F path w = Inr w'"
  shows "gui w' = gui w \<and> (\<forall>q. q \<noteq> path \<longrightarrow> files w' q = files w q)"
proof (cases "path = []")
  case True
  then show ?thesis using assms by (simp add: save_input_file_def)
next
  case False
  obtain w1 exc where t: "try_block F path w = (w1, exc)"
    by (cases "try_block F path w")
  from try_block_frame [OF t] assms False t show ?thesis
    by (cases exc) (auto simp add: save_input_file_def is_Exception_all)
qed

text \<open>
  C6. Saving contains its failures. \<open>save_input_file\<close> never passes an exception on to
  its caller. With an empty path (the dialog was cancelled) it returns with the world as
  it was: nothing is written or created. When opening the file fails, the error is printed
  and nothing else changes; when a write fails, the error is printed and the lines written
  before it are what the file holds; whatever exception ends the \<open>try\<close> block, it is printed
  and the function returns normally. On a form of the shape the boundary tab maintains,
  with the file opened and no write failing, nothing is printed.
\<close>

theorem save_contains_failures:
  "(\<exists>w'. save_input_file F path w = Inr w')
   \<and> save_input_file F [] w = Inr w
   \<and> (path \<noteq> [] \<and> open_denied w path \<longrightarrow>
        save_input_file F path w =
          Inr (w\<lparr>stdout := stdout w @ [''Error saving file: '' @ error_text OSError]\<rparr>))
   \<and> (path \<noteq> [] \<and> \<not> open_denied w path
        \<and> bcs_wellformed (bc_layouts (boundary_tab (gui w)))
        \<and> write_quota w = Some k \<and> k < length (file_lines F (gui w)) \<longrightarrow>
        save_input_file F path w =
          Inr (w\<lparr>files := (files w)(path \<mapsto> unlines (take k (file_lines F (gui w)))),
                 stdout := stdout w @ [''Error saving file: '' @ error_text OSError]\<rparr>))
   \<and> (\<forall>w1 e. path \<noteq> [] \<and> try_block F path w = (w1, Some e) \<longrightarrow>
        save_input_file F path w =
          Inr (w1\<lparr>stdout := stdout w1 @ [''Error saving file: '' @ error_text e]\<rparr>))
   \<and> (path \<noteq> [] \<and> \<not> open_denied w path
        \<and> bcs_wellformed (bc_layouts (boundary_tab (gui w)))
        \<and> write_quota w = None \<longrightarrow>
        save_input_file F path w =
          Inr (w\<lparr>files := (files w)(path \<mapsto> unlines (file_lines F (gui w)))\<rparr>))"
proof -
  have "\<forall>w1 e. path \<noteq> [] \<and> try_block F path w = (w1, Some e) \<longrightarrow>
        save_input_file F path w =
          Inr (w1\<lparr>stdout := stdout w1 @ [''Error saving file: '' @ error_text e]\<rparr>)"
    by (simp add: save_input_file_def is_Exception_all)
  then show ?thesis
    using save_returns [of F path w] save_cancelled [of F w] save_open_denied [of path w F]
      save_write_fails [of path w k F] save_succeeds [of path w F]
    by blast
qed

lemma demo_world_wellformed: "bcs_wellformed (bc_layouts (boundary_tab (gui demo_world)))"
  using demo_wellformed by (simp add: demo_world_def)

lemma demo_first_lines:
  "take 3 (file_lines decimal_float demo_gui) =
     [''// Input file for solver'', [], ''// Geometry details'']"
  by (simp add: file_lines_def demo_geometry_lines)

theorem save_contains_failures_witness:
  "save_input_file decimal_float ''/readonly/inputFile.txt'' demo_world =
     Inr (demo_world\<lparr>stdout := [''Error saving file: OSError'']\<rparr>)
   \<and> save_input_file decimal_float ''inputFile.txt'' demo_world =
       Inr (demo_world
             \<lparr>files := [''inputFile.txt'' \<mapsto>
                         unlines [''// Input file for solver'', [], ''// Geometry details'']],
              stdout := [''Error saving file: OSError'']\<rparr>)
   \<and> save_input_file decimal_float ''inputFile.txt'' (demo_world\<lparr>write_quota := None\<rparr>) =
       Inr (demo_world
             \<lparr>write_quota := None,
              files := [''inputFile.txt'' \<mapsto> unlines (file_lines decimal_float demo_gui)]\<rparr>)"
proof -
  have len: "3 < length (file_lines decimal_float demo_gui)"
    by (simp add: file_lines_def)
  have a: "save_input_file decimal_float ''/readonly/inputFile.txt'' demo_world =
     Inr (demo_world\<lparr>stdout := [''Error saving file: OSError'']\<rparr>)"
    using save_contains_failures [of decimal_float "''/readonly/inputFile.txt''" demo_world 3]
    by (simp add: demo_world_def error_text_def)
  have b: "save_input_file decimal_float ''inputFile.txt'' demo_world =
       Inr (demo_world
             \<lparr>files := [''inputFile.txt'' \<mapsto>
                         unlines [''// Input file for solver'', [], ''// Geometry details'']],
              stdout := [''Error saving file: OSError'']\<rparr>)"
    using save_contains_failures [of decimal_float "''inputFile.txt''" demo_world 3]
      demo_world_wellformed len demo_first_lines
    by (simp add: demo_world_def error_text_def)
  have c: "save_input_file decimal_float ''inputFile.txt'' (demo_world\<lparr>write_quota := None\<rparr>) =
       Inr (demo_world
             \<lparr>write_quota := None,
              files := [''inputFile.txt'' \<mapsto> unlines (file_lines decimal_float demo_gui)]\<rparr>)"
    using save_contains_failures [of decimal_float "''inputFile.txt''"
        "demo_world\<lparr>write_quota := None\<rparr>" 3] demo_world_wellformed
    by (simp add: demo_world_def)
  show ?thesis using a b c by (intro conjI)
qed



text \<open>
  C7. Saving has no effect on the form and never reads a file. Whatever
  \<open>save_input_file\<close> returns, the form (every widget value and every row list of the six
  tabs) is as before and every file other than the target is as before; and the run does
  not depend on what any file held: with other file contents to start from, the same
  messages are printed and, where the target is opened, the same contents are written.
\<close>

theorem save_leaves_form_unchanged:
  assumes "save_input_file F path w = Inr w'"
  shows "gui w' = gui w
       \<and> (\<forall>q. q \<noteq> path \<longrightarrow> files w' q = files w q)
       \<and> (\<forall>fs. \<exists>w''. save_input_file F path (w\<lparr>files := fs\<rparr>) = Inr w''
                \<and> gui w'' = gui w \<and> stdout w'' = stdout w'
                \<and> (path \<noteq> [] \<and> \<not> open_denied w path \<longrightarrow> files w'' path = files w' path))"
proof -
  have "\<exists>w''. save_input_file F path (w\<lparr>files := fs\<rparr>) = Inr w''
                \<and> gui w'' = gui w \<and> stdout w'' = stdout w'
                \<and> (path \<noteq> [] \<and> \<not> open_denied w path \<longrightarrow> files w'' path = files w' path)" for fs
    using assms
    by (auto simp add: save_input_file_def try_block_def is_Exception_all
        split: if_splits prod.splits option.splits)
  then show ?thesis
    using save_frame [OF assms] by blast
qed

theorem save_leaves_form_unchanged_witness:
  "save_input_file decimal_float ''inputFile.txt'' (demo_world\<lparr>write_quota := None\<rparr>) =
     Inr (demo_world
           \<lparr>write_quota := None,
            files := [''inputFile.txt'' \<mapsto> unlines (file_lines decimal_float demo_gui)]\<rparr>)
   \<and> gui (demo_world
           \<lparr>write_quota := None,
            files := [''inputFile.txt'' \<mapsto> unlines (file_lines decimal_float demo_gui)]\<rparr>) = demo_gui"
proof -
  have s: "save_input_file decimal_float ''inputFile.txt'' (demo_world\<lparr>write_quota := None\<rparr>) =
     Inr (demo_world
           \<lparr>write_quota := None,
            files := [''inputFile.txt'' \<mapsto> unlines (file_lines decimal_float demo_gui)]\<rparr>)"
    using save_succeeds [of "''inputFile.txt''" "demo_world\<lparr>write_quota := None\<rparr>" decimal_float]
      demo_world_wellformed
    by (simp add: demo_world_def)
  from save_leaves_form_unchanged [OF s] show ?thesis
    using s by (simp add: demo_world_def)
qed

section \<open>What the file holds of the form\<close>
























section \<open>The shape of the boundary tab is maintained\<close>

lemma mesh_tab_name: "tab_kind tab_name = Some Mesh \<Longrightarrow> contains ''disp'' tab_name"
  by (simp add: tab_kind_def var_map_def lower_def lower_char_def split: if_splits)

lemma tags_refresh_bc_labels:
  "map bc_tag_spin (refresh_bc_labels layout) = map bc_tag_spin layout"
proof -
  have "bc_tag_spin \<circ> refresh_bc_label = (\<lambda>p. bc_tag_spin (snd p))"
    by (simp add: fun_eq_iff refresh_bc_label_def split_def)
  then show ?thesis
    using map_enumerate_snd [of bc_tag_spin 0 layout]
    by (simp add: refresh_bc_labels_def)
qed

lemma tagged_refresh_bc_labels:
  assumes "\<forall>row \<in> set layout. bc_tag_spin row \<noteq> None"
  shows "\<forall>row \<in> set (refresh_bc_labels layout). bc_tag_spin row \<noteq> None"
proof -
  have "set (map bc_tag_spin (refresh_bc_labels layout)) = set (map bc_tag_spin layout)"
    by (simp only: tags_refresh_bc_labels)
  then have "bc_tag_spin ` set (refresh_bc_labels layout) = bc_tag_spin ` set layout"
    by simp
  then show ?thesis
    using assms by (metis imageE imageI)
qed

lemma set_remove_widget: "set (remove_widget w layout) \<subseteq> set layout"
  by (induction layout) auto

lemma tab_wellformed_add:
  assumes "tab_wellformed (name, layout)"
  shows "tab_wellformed (name, add_bc_row w layout name lbl)"
proof -
  have "\<forall>row \<in> set (add_bc_row w layout name lbl). bc_tag_spin row \<noteq> None"
    if "tab_kind name = Some Mesh"
  proof -
    have "contains ''disp'' name"
      using that by (rule mesh_tab_name)
    moreover have "\<forall>row \<in> set layout. bc_tag_spin row \<noteq> None"
      using assms that by (simp add: tab_wellformed_def)
    ultimately show ?thesis
      unfolding add_bc_row_def Let_def
      by (intro tagged_refresh_bc_labels) simp
  qed
  then show ?thesis
    using assms by (simp add: tab_wellformed_def)
qed

lemma tab_wellformed_remove:
  assumes "tab_wellformed (name, layout)"
  shows "tab_wellformed (name, remove_generic_row layout w)"
proof -
  have "\<forall>row \<in> set (remove_generic_row layout w). bc_tag_spin row \<noteq> None"
    if "tab_kind name = Some Mesh"
  proof -
    have "\<forall>row \<in> set (remove_widget w layout). bc_tag_spin row \<noteq> None"
      using assms that set_remove_widget [of w layout] by (auto simp add: tab_wellformed_def)
    then show ?thesis
      unfolding remove_generic_row_def by (rule tagged_refresh_bc_labels)
  qed
  then show ?thesis
    using assms by (simp add: tab_wellformed_def)
qed

lemma bcs_wellformed_update:
  assumes "bcs_wellformed layouts" and "tab_wellformed (name, layout)"
  shows "bcs_wellformed (AList.update name layout layouts)"
  using assms set_alist_update [of name layout layouts]
  by (auto simp add: bcs_wellformed_def)

lemma bcs_wellformed_lookup:
  "bcs_wellformed layouts \<Longrightarrow> map_of layouts name = Some layout \<Longrightarrow> tab_wellformed (name, layout)"
  by (auto simp add: bcs_wellformed_def dest: map_of_SomeD)

lemma wellformed_click_add:
  "bcs_wellformed (bc_layouts bt) \<Longrightarrow> bcs_wellformed (bc_layouts (click_add_bc name bt))"
  by (auto simp add: click_add_bc_def split: option.splits
      intro!: bcs_wellformed_update tab_wellformed_add bcs_wellformed_lookup)

lemma wellformed_click_remove:
  "bcs_wellformed (bc_layouts bt) \<Longrightarrow> bcs_wellformed (bc_layouts (click_remove_bc name w bt))"
  by (auto simp add: click_remove_bc_def split: option.splits
      intro!: bcs_wellformed_update tab_wellformed_remove bcs_wellformed_lookup)

lemma wellformed_gui_step:
  "bcs_wellformed (bc_layouts (boundary_tab g)) \<Longrightarrow>
   bcs_wellformed (bc_layouts (boundary_tab (gui_step ev g)))"
  by (cases ev) (simp_all add: wellformed_click_add wellformed_click_remove)

lemma wellformed_gui_run:
  "bcs_wellformed (bc_layouts (boundary_tab g)) \<Longrightarrow>
   bcs_wellformed (bc_layouts (boundary_tab (gui_run evs g)))"
  unfolding gui_run_def
proof (induction evs arbitrary: g)
  case Nil
  then show ?case by simp
next
  case (Cons ev evs)
  have "bcs_wellformed (bc_layouts (boundary_tab (gui_step ev g)))"
    using Cons.prems by (rule wellformed_gui_step)
  then show ?case using Cons.IH by simp
qed

lemma wellformed_empty: "bcs_wellformed (bc_layouts boundary_tab_empty)"
  by (simp add: bcs_wellformed_def tab_wellformed_def boundary_tab_empty_def bc_tab_names_def
      tab_kind_def var_map_def lower_def lower_char_def)

text \<open>Every form that the add and remove buttons lead to from the freshly built window
  has the shape that the statements about the file assume.\<close>

lemma reachable_wellformed:
  assumes "solver_gui_init = Inr g0"
  shows "bcs_wellformed (bc_layouts (boundary_tab (gui_run evs g0)))"
proof -
  have "tab_wellformed (''X-velocity'', [])"
    by (simp add: tab_wellformed_def tab_kind_def var_map_def lower_def lower_char_def)
  then have "tab_wellformed (''X-velocity'', add_bc_row 0 [] ''X-velocity'' (Some (b_label 1)))"
    by (rule tab_wellformed_add)
  with wellformed_empty have "bcs_wellformed (bc_layouts (boundary_tab g0))"
    using assms bcs_wellformed_update
    by (auto simp add: solver_gui_init_eq)
  then show ?thesis
    by (rule wellformed_gui_run)
qed

end
